theory Spec2Isabelle
  imports Complex_Main "HOL-Library.Word" "HOL-Library.Signed_Division"
begin

section \<open>CompositeJK: data model\<close>

text \<open>
  The embedding follows \<^verbatim>\<open>psi4/src/psi4/libfock/CompositeJK.cc\<close>.
  A C++ \<^verbatim>\<open>double\<close> is read as a real number, a \<^verbatim>\<open>Matrix\<close> as the list of
  its rows, a \<^verbatim>\<open>Vector\<close> as a list, a \<^verbatim>\<open>std::vector\<close> of shared matrices as
  a list of matrix values (\<^verbatim>\<open>clone()\<close> is then the identity on values) and
  \<^verbatim>\<open>size_t\<close> as a 64-bit word. The counter \<^verbatim>\<open>incfock_count_\<close> is an \<^verbatim>\<open>int\<close>: a
  32-bit word, read as a signed number by \<open>sint\<close>, whose addition wraps around. Every
  \<^verbatim>\<open>throw\<close> is a value \<open>Inl e\<close>.
\<close>

type_synonym size_t = "64 word"
type_synonym int32 = "32 word"
type_synonym matrix = "real list list"
type_synonym vector = "real list"

datatype error =
    PsiException string
  | OutOfRange
  | DivisionByZero
  | IntegerOverflow

subsection \<open>The fragment of \<^verbatim>\<open>std::string\<close> used by the set-up\<close>

definition npos :: size_t where
  "npos = - 1"

text \<open>\<^verbatim>\<open>s.find("+")\<close>: the index of the first occurrence, \<^verbatim>\<open>npos\<close> when there is none.\<close>

definition str_find :: "string \<Rightarrow> char \<Rightarrow> size_t" where
  "str_find s c =
     (if c \<in> set s then of_nat (length (takeWhile (\<lambda>x. x \<noteq> c) s)) else npos)"

text \<open>\<^verbatim>\<open>s.length()\<close>.\<close>

definition str_length :: "string \<Rightarrow> size_t" where
  "str_length s = of_nat (length s)"

text \<open>
  \<^verbatim>\<open>s.substr(pos, len)\<close>: throws \<^verbatim>\<open>std::out_of_range\<close> when \<^verbatim>\<open>pos > size()\<close>, and
  otherwise yields the characters from \<^verbatim>\<open>pos\<close> on, at most \<^verbatim>\<open>len\<close> of them.
\<close>

definition substr :: "string \<Rightarrow> size_t \<Rightarrow> size_t \<Rightarrow> error + string" where
  "substr s pos len =
     (if length s < unat pos then Inl OutOfRange
      else Inr (take (unat len) (drop (unat pos) s)))"

subsection \<open>Options and object state\<close>

record options =
  INCFOCK :: bool
  INCFOCK_FULL_FOCK_EVERY :: int
  INCFOCK_CONVERGENCE :: real
  SCF_TYPE :: string
  SCREENING :: string
  INTS_TOLERANCE :: real
  LINK_INTS_TOLERANCE :: real
  LINK_INTS_TOLERANCE_has_changed :: bool

record jk_state =
  incfock :: bool
  incfock_count :: int32
  do_incfock_iter :: bool
  initial_iteration :: bool
  j_type :: string
  k_type :: string
  density_screening :: bool
  early_screening :: bool
  cutoff :: real
  linK_ints_cutoff :: real
  do_J :: bool
  do_K :: bool
  do_wK :: bool
  lr_symmetric :: bool
  D_ao :: "matrix list"
  D_ref :: "matrix list"
  D_prev :: "matrix list"
  J_ao :: "matrix list"
  K_ao :: "matrix list"

section \<open>Set-up: \<^verbatim>\<open>CompositeJK::common_init\<close>\<close>

text \<open>
  Lines 192--200: the J and the K selector are cut out of \<^verbatim>\<open>SCF_TYPE\<close>, and a K
  selector equal to the J selector becomes \<^verbatim>\<open>"NONE"\<close>.
\<close>

definition derive_jk_types :: "string \<Rightarrow> error + (string \<times> string)" where
  "derive_jk_types jk_type =
     (case substr jk_type 0 (str_find jk_type CHR ''+'') of
        Inl e \<Rightarrow> Inl e
      | Inr j \<Rightarrow>
          (case substr jk_type (str_find jk_type CHR ''+'' + 1) (str_length jk_type) of
             Inl e \<Rightarrow> Inl e
           | Inr k \<Rightarrow> Inr (j, if k = j then ''NONE'' else k)))"

text \<open>
  The set-up proper. The integral engines, the fitting metric, the COSX grids and the
  overlap metrics are built by collaborators outside this file; they hold no field of
  \<open>jk_state\<close>, so the branches that build them leave the state as it is.
\<close>

definition common_init :: "options \<Rightarrow> jk_state \<Rightarrow> error + jk_state" where
  "common_init opts s0 =
     (let s1 = s0\<lparr>incfock := INCFOCK opts, incfock_count := 0, do_incfock_iter := False\<rparr> in
      if INCFOCK_FULL_FOCK_EVERY opts \<le> 0
      then Inl (PsiException ''Invalid input for option INCFOCK_FULL_FOCK_EVERY (<= 0)'')
      else
        (case derive_jk_types (SCF_TYPE opts) of
           Inl e \<Rightarrow> Inl e
         | Inr (j, k) \<Rightarrow>
            (let s2 = s1\<lparr>j_type := j, k_type := k,
                         density_screening := (SCREENING opts = ''DENSITY''),
                         cutoff := INTS_TOLERANCE opts,
                         early_screening := (if k = ''COSX'' then True else False)\<rparr> in
             if j_type s2 = ''DFDIRJ'' then
               (if k_type s2 = ''LINK'' then
                  (if LINK_INTS_TOLERANCE_has_changed opts
                   then Inr (s2\<lparr>linK_ints_cutoff := LINK_INTS_TOLERANCE opts\<rparr>)
                   else Inr (s2\<lparr>linK_ints_cutoff := cutoff s2\<rparr>))
                else if k_type s2 = ''COSX'' then Inr s2
                else if k_type s2 = ''NONE'' then Inr s2
                else Inl (PsiException ''Invalid Composite K algorithm selected!''))
             else Inl (PsiException ''Invalid Composite J algorithm selected!''))))"

text \<open>\<^verbatim>\<open>CompositeJK::set_do_K\<close> (the message printed in the second branch is not state).\<close>

definition set_do_K :: "bool \<Rightarrow> jk_state \<Rightarrow> error + jk_state" where
  "set_do_K b s =
     (if b \<and> k_type s = ''NONE''
      then Inl (PsiException
        (''No composite K build algorithm was specified, but K matrix is required for current method! Please specify a composite K build algorithm by setting SCF_TYPE to ''
          @ j_type s @ ''+{K_ALGO}.''))
      else Inr (s\<lparr>do_K := b\<rparr>))"

section \<open>Dense matrices\<close>

text \<open>
  Modelled from the spec: the dense-matrix capability of libmints is not part of this
  file. \<^verbatim>\<open>Matrix::clone\<close> is a copy, \<^verbatim>\<open>Matrix::zero\<close> clears every entry,
  \<^verbatim>\<open>Matrix::subtract\<close> and \<^verbatim>\<open>Matrix::add\<close> work entry by entry; their two operands
  have the same dimensions wherever the source calls them.
\<close>

definition clone :: "matrix \<Rightarrow> matrix" where
  "clone M = M"

definition zero_matrix :: "matrix \<Rightarrow> matrix" where
  "zero_matrix M = map (map (\<lambda>x. 0)) M"

definition matrix_subtract :: "matrix \<Rightarrow> matrix \<Rightarrow> matrix" where
  "matrix_subtract A B = map2 (map2 (\<lambda>a b. a - b)) A B"

definition matrix_add :: "matrix \<Rightarrow> matrix \<Rightarrow> matrix" where
  "matrix_add A B = map2 (map2 (\<lambda>a b. a + b)) A B"

text \<open>
  Modelled from the spec: \<^verbatim>\<open>Matrix::hermitivitize\<close> of libmints is not part of this
  file; the spec calls it symmetrization, "Hermitian-forced". Each off-diagonal pair
  of entries is replaced by its mean, the diagonal stays.
\<close>

definition hermitivitize :: "matrix \<Rightarrow> matrix" where
  "hermitivitize M =
     map (\<lambda>row. map (\<lambda>col.
            if row = col then M ! row ! col
            else 0.5 * (M ! min row col ! max row col + M ! max row col ! min row col))
          [0..<length M])
         [0..<length M]"

definition symmetric_matrix :: "matrix \<Rightarrow> bool" where
  "symmetric_matrix M =
     (list_all (\<lambda>row. length row = length M) M \<and>
      (\<forall>i < length M. \<forall>j < length M. M ! i ! j = M ! j ! i))"

text \<open>
  A loop \<^verbatim>\<open>for (i = 0; i < n; i++) xs[i] = f(i, xs[i])\<close> over a vector of objects.
\<close>

definition for_each_index :: "nat \<Rightarrow> (nat \<Rightarrow> 'a \<Rightarrow> 'a) \<Rightarrow> 'a list \<Rightarrow> 'a list" where
  "for_each_index n f xs = fold (\<lambda>i ys. ys[i := f i (ys ! i)]) [0..<n] xs"

section \<open>The incremental-Fock controller and \<^verbatim>\<open>CompositeJK::compute_JK\<close>\<close>

text \<open>
  Modelled from the spec: \<^verbatim>\<open>JK::zero\<close> belongs to the base class, which is not part
  of this file; by the spec "the output accumulators start from zero".
\<close>

definition zero :: "jk_state \<Rightarrow> jk_state" where
  "zero s = s\<lparr>J_ao := map zero_matrix (J_ao s), K_ao := map zero_matrix (K_ao s)\<rparr>"

text \<open>
  \<^verbatim>\<open>CompositeJK::incfock_setup\<close>. The assignment \<^verbatim>\<open>D_ref_[jki] = ...\<close> needs
  \<^verbatim>\<open>D_ref_\<close> to hold \<open>njk\<close> entries already; \<open>incfock_inv\<close> below is the invariant that
  provides them.
\<close>

definition incfock_setup :: "jk_state \<Rightarrow> jk_state" where
  "incfock_setup s =
     (if do_incfock_iter s then
        (let njk = length (D_ao s) in
         if initial_iteration s \<or> length (D_prev s) \<noteq> njk
         then zero (s\<lparr>initial_iteration := True, D_ref := D_ao s\<rparr>)
         else s\<lparr>D_ref := for_each_index njk
                   (\<lambda>jki old. matrix_subtract (clone (D_ao s ! jki)) (D_prev s ! jki)) (D_ref s)\<rparr>)
      else zero (s\<lparr>D_ref := D_ao s\<rparr>))"

text \<open>\<^verbatim>\<open>CompositeJK::incfock_postiter\<close>.\<close>

definition incfock_postiter :: "jk_state \<Rightarrow> jk_state" where
  "incfock_postiter s = s\<lparr>D_prev := fold (\<lambda>Di prev. prev @ [clone Di]) (D_ao s) []\<rparr>"

text \<open>
  Lines 520--538 of \<^verbatim>\<open>compute_JK\<close>. \<open>Dnorm\<close> is the process global
  \<^verbatim>\<open>"SCF D NORM"\<close>, and \<open>reset\<close> is the \<^verbatim>\<open>int\<close> that \<^verbatim>\<open>get_int\<close> returns. The operator
  \<^verbatim>\<open>%\<close> of C++ truncates (\<open>smod\<close> on the signed values) and is evaluated only when the
  two tests before it hold; there a zero divisor, and the division of the least
  \<^verbatim>\<open>int\<close> by \<open>-1\<close>, trap. The subtraction \<^verbatim>\<open>reset - 1\<close> and the increment of the
  counter wrap around at 32 bits.
\<close>

definition compute_JK_incfock_pre :: "options \<Rightarrow> real \<Rightarrow> jk_state \<Rightarrow> error + jk_state" where
  "compute_JK_incfock_pre opts Dnorm s =
     (if incfock s then
        (let reset = INCFOCK_FULL_FOCK_EVERY opts;
             incfock_conv = INCFOCK_CONVERGENCE opts
         in if Dnorm \<ge> incfock_conv \<and> \<not> initial_iteration s \<and> reset = 0
            then Inl DivisionByZero
            else if Dnorm \<ge> incfock_conv \<and> \<not> initial_iteration s \<and> reset = - 1 \<and>
                    sint (incfock_count s) = - 2147483648
            then Inl IntegerOverflow
            else
              (let s1 = s\<lparr>do_incfock_iter :=
                           (Dnorm \<ge> incfock_conv \<and> \<not> initial_iteration s \<and>
                            sint (incfock_count s) smod reset \<noteq> signed_take_bit 31 (reset - 1))\<rparr>;
                   s2 = (if \<not> initial_iteration s1 \<and> Dnorm \<ge> incfock_conv
                         then s1\<lparr>incfock_count := incfock_count s1 + 1\<rparr> else s1)
               in Inr (incfock_setup s2)))
      else Inr (zero (s\<lparr>D_ref := D_ao s\<rparr>)))"

text \<open>
  The integral contractions of the three builders are parameters here: the per-thread
  partial matrices \<^verbatim>\<open>JT[jki][thread]\<close> and \<^verbatim>\<open>KT[jki][thread]\<close> that the contraction
  stages leave for the density list \<open>D\<close>, and the K matrices after the LinK stripe-out.
  What follows them in each builder, the final reduction, is modelled in full. The
  contraction of a quartet and the stripe-out of a task are modelled on their own
  further down (\<open>contract_quartet\<close>, \<open>stripeout\<close>).
\<close>

record contractions =
  nthreads :: nat
  DirectDFJ_JT :: "matrix list \<Rightarrow> matrix list list"
  linK_stripeout :: "matrix list \<Rightarrow> matrix list \<Rightarrow> matrix list"
  COSK_KT :: "matrix list \<Rightarrow> matrix list list"

text \<open>Lines 821--826 of \<^verbatim>\<open>build_DirectDFJ\<close>.\<close>

definition build_DirectDFJ :: "contractions \<Rightarrow> matrix list \<Rightarrow> matrix list \<Rightarrow> matrix list" where
  "build_DirectDFJ C D J =
     (let njk = length D; JT = DirectDFJ_JT C D in
      for_each_index njk
        (\<lambda>jki Jm. hermitivitize
           (fold (\<lambda>thread M. matrix_add M (JT ! jki ! thread)) [0..<nthreads C] Jm)) J)"

text \<open>Lines 834--836 and 1226--1228 of \<^verbatim>\<open>build_linK\<close>.\<close>

definition build_linK :: "contractions \<Rightarrow> bool \<Rightarrow> matrix list \<Rightarrow> matrix list \<Rightarrow> error + matrix list" where
  "build_linK C lr_sym D K =
     (if \<not> lr_sym
      then Inl (PsiException
        ''Non-symmetric K matrix builds are currently not supported in the LinK algorithm.'')
      else Inr (map hermitivitize (linK_stripeout C D K)))"

text \<open>Lines 1640--1648 of \<^verbatim>\<open>build_COSK\<close>.\<close>

definition build_COSK :: "contractions \<Rightarrow> bool \<Rightarrow> matrix list \<Rightarrow> matrix list \<Rightarrow> matrix list" where
  "build_COSK C lr_sym D K =
     (let njk = length D; KT = COSK_KT C D in
      for_each_index njk
        (\<lambda>jki Km.
           (let Ksum = fold (\<lambda>thread M. matrix_add M (KT ! jki ! thread)) [0..<nthreads C] Km
            in if lr_sym then hermitivitize Ksum else Ksum)) K)"

text \<open>
  \<^verbatim>\<open>CompositeJK::compute_JK\<close>. The density update of the integral engines (lines
  540--545) changes no field of \<open>jk_state\<close>.
\<close>

definition compute_JK :: "contractions \<Rightarrow> options \<Rightarrow> real \<Rightarrow> jk_state \<Rightarrow> error + jk_state" where
  "compute_JK C opts Dnorm s =
     (if do_wK s
      then Inl (PsiException ''CompositeJK algorithms do not support wK integrals yet!'')
      else
        (case compute_JK_incfock_pre opts Dnorm s of
           Inl e \<Rightarrow> Inl e
         | Inr s1 \<Rightarrow>
            (let s2 = (if do_J s1 then
                         (if j_type s1 = ''DFDIRJ''
                          then s1\<lparr>J_ao := build_DirectDFJ C (D_ref s1) (J_ao s1)\<rparr> else s1)
                       else s1)
             in case (if do_K s2 then
                        (if k_type s2 = ''LINK'' then
                           (case build_linK C (lr_symmetric s2) (D_ref s2) (K_ao s2) of
                              Inl e \<Rightarrow> Inl e
                            | Inr K \<Rightarrow> Inr (s2\<lparr>K_ao := K\<rparr>))
                         else if k_type s2 = ''COSX'' then
                           Inr (s2\<lparr>K_ao := build_COSK C (lr_symmetric s2) (D_ref s2) (K_ao s2)\<rparr>)
                         else Inr s2)
                      else Inr s2) of
                  Inl e \<Rightarrow> Inl e
                | Inr s3 \<Rightarrow>
                   (let s4 = (if incfock s3 then incfock_postiter s3 else s3)
                    in Inr (if initial_iteration s4 then s4\<lparr>initial_iteration := False\<rparr> else s4)))))"

text \<open>
  Which of the two branches of \<open>incfock_setup\<close> an iteration took can be read off the
  flags it leaves: the incremental branch is the only one that ends with
  \<open>do_incfock_iter\<close> set and \<open>initial_iteration\<close> clear.
\<close>

datatype iteration_kind = Full | Incremental

definition kind_of :: "jk_state \<Rightarrow> iteration_kind" where
  "kind_of s' = (if do_incfock_iter s' \<and> \<not> initial_iteration s' then Incremental else Full)"

text \<open>
  Between two iterations \<open>D_ref\<close> keeps as many entries as the cache, which is what the
  indexed assignment of the incremental branch relies on.
\<close>

definition incfock_inv :: "jk_state \<Rightarrow> bool" where
  "incfock_inv s = (initial_iteration s \<or> length (D_ref s) = length (D_prev s))"

subsection \<open>The claimed transition rule, and runs of several iterations\<close>

text \<open>
  The rule as the specification words it: an iteration is incremental when it is not the
  first, the cache has the channel count of the current density, the density change is
  at or above the floor, and "the iteration count since the last full build has not
  reached the configured reset cadence". \<open>history\<close> lists the kinds of the iterations
  completed so far, oldest first; the count takes in the iteration being decided.
\<close>

definition spec_iterations_since_full :: "iteration_kind list \<Rightarrow> nat" where
  "spec_iterations_since_full history =
     Suc (length (takeWhile (\<lambda>k. k = Incremental) (rev history)))"

definition spec_incremental :: "options \<Rightarrow> real \<Rightarrow> iteration_kind list \<Rightarrow> jk_state \<Rightarrow> bool" where
  "spec_incremental opts Dnorm history s =
     (\<not> initial_iteration s \<and> length (D_prev s) = length (D_ao s) \<and>
      Dnorm \<ge> INCFOCK_CONVERGENCE opts \<and>
      int (spec_iterations_since_full history) < INCFOCK_FULL_FOCK_EVERY opts)"

text \<open>
  A run of the object under the SCF driver: before each call the driver stores the
  current densities in \<^verbatim>\<open>D_ao_\<close> and the density change in \<^verbatim>\<open>"SCF D NORM"\<close>. The
  run records the kind of every iteration.
\<close>

fun run_iterations ::
  "contractions \<Rightarrow> options \<Rightarrow> (matrix list \<times> real) list \<Rightarrow> iteration_kind list \<times> jk_state
     \<Rightarrow> error + (iteration_kind list \<times> jk_state)" where
  "run_iterations C opts [] acc = Inr acc"
| "run_iterations C opts ((D, Dnorm) # rest) (history, s) =
     (case compute_JK_incfock_pre opts Dnorm (s\<lparr>D_ao := D\<rparr>) of
        Inl e \<Rightarrow> Inl e
      | Inr s1 \<Rightarrow>
         (case compute_JK C opts Dnorm (s\<lparr>D_ao := D\<rparr>) of
            Inl e \<Rightarrow> Inl e
          | Inr s' \<Rightarrow> run_iterations C opts rest (history @ [kind_of s1], s')))"

subsection \<open>Sample inputs\<close>

text \<open>
  Options of an incremental run that rebuilds in full every second iteration; an object
  as the base-class constructor leaves it (first iteration pending, J and K wanted, one
  channel of 2 by 2 accumulators, no cache); and stand-ins for the contractions that are
  linear in the density.
\<close>

definition sample_options :: options where
  "sample_options =
     \<lparr>INCFOCK = True, INCFOCK_FULL_FOCK_EVERY = 2, INCFOCK_CONVERGENCE = 1 / 100000,
      SCF_TYPE = ''DFDIRJ+LINK'', SCREENING = ''DENSITY'', INTS_TOLERANCE = 1 / 1000000,
      LINK_INTS_TOLERANCE = 1 / 1000000, LINK_INTS_TOLERANCE_has_changed = False\<rparr>"

definition sample_state :: jk_state where
  "sample_state =
     \<lparr>incfock = False, incfock_count = 0, do_incfock_iter = False, initial_iteration = True,
      j_type = [], k_type = [], density_screening = False, early_screening = False,
      cutoff = 0, linK_ints_cutoff = 0, do_J = True, do_K = True, do_wK = False,
      lr_symmetric = True, D_ao = [], D_ref = [], D_prev = [],
      J_ao = [[[0, 0], [0, 0]]], K_ao = [[[0, 0], [0, 0]]]\<rparr>"

definition sample_contractions :: contractions where
  "sample_contractions =
     \<lparr>nthreads = 1,
      DirectDFJ_JT = (\<lambda>D. map (\<lambda>M. [M]) D),
      linK_stripeout = (\<lambda>D K. map2 matrix_add K D),
      COSK_KT = (\<lambda>D. map (\<lambda>M. [M]) D)\<rparr>"

text \<open>
  The object after the set-up; after a first, full iteration on the unit density; after
  a second, incremental iteration on the density \<open>[[2, 0], [0, 1]]\<close>; after a third, full
  iteration on the density \<open>[[2, 1], [1, 1]]\<close>; then the state that the preprocessing of
  a fourth iteration, on the density \<open>[[3, 1], [1, 1]]\<close>, leaves.
\<close>

definition sample_ready :: jk_state where
  "sample_ready =
     sample_state\<lparr>incfock := True, j_type := ''DFDIRJ'', k_type := ''LINK'',
                  density_screening := True, cutoff := 1 / 1000000,
                  linK_ints_cutoff := 1 / 1000000\<rparr>"

definition sample_after1 :: jk_state where
  "sample_after1 =
     sample_ready\<lparr>initial_iteration := False,
                  D_ao := [[[1, 0], [0, 1]]], D_ref := [[[1, 0], [0, 1]]],
                  D_prev := [[[1, 0], [0, 1]]],
                  J_ao := [[[1, 0], [0, 1]]], K_ao := [[[1, 0], [0, 1]]]\<rparr>"

definition sample_after2 :: jk_state where
  "sample_after2 =
     sample_ready\<lparr>incfock_count := 1, do_incfock_iter := True, initial_iteration := False,
                  D_ao := [[[2, 0], [0, 1]]], D_ref := [[[1, 0], [0, 0]]],
                  D_prev := [[[2, 0], [0, 1]]],
                  J_ao := [[[2, 0], [0, 1]]], K_ao := [[[2, 0], [0, 1]]]\<rparr>"

definition sample_after3 :: jk_state where
  "sample_after3 =
     sample_ready\<lparr>incfock_count := 1, initial_iteration := False,
                  D_ao := [[[2, 1], [1, 1]]], D_ref := [[[2, 1], [1, 1]]],
                  D_prev := [[[2, 1], [1, 1]]],
                  J_ao := [[[2, 1], [1, 1]]], K_ao := [[[2, 1], [1, 1]]]\<rparr>"

definition sample_pre4 :: jk_state where
  "sample_pre4 =
     sample_after3\<lparr>incfock_count := 2,
                   D_ao := [[[3, 1], [1, 1]]], D_ref := [[[3, 1], [1, 1]]],
                   J_ao := [[[0, 0], [0, 0]]], K_ao := [[[0, 0], [0, 0]]]\<rparr>"

section \<open>The J builder: forward contraction of \<^verbatim>\<open>build_DirectDFJ\<close>\<close>

text \<open>
  What the builder reads from its collaborators: the two basis sets (number of shells,
  and for each shell its number of functions and the index of its first function), the
  significant shell pairs of the three-index engine with their Schwarz values, the
  integral block that \<^verbatim>\<open>compute_shell(P, 0, M, N)\<close> leaves in the buffer, and the
  Coulomb metric. \<open>thread_of\<close> is \<^verbatim>\<open>omp_get_thread_num()\<close> for each pass of the
  parallel loop, that is, the schedule.
\<close>

record df_context =
  primary_nshell :: nat
  primary_nfunction :: "nat \<Rightarrow> nat"
  primary_function_index :: "nat \<Rightarrow> nat"
  aux_nshell :: nat
  aux_nbf :: nat
  aux_nfunction :: "nat \<Rightarrow> nat"
  aux_function_index :: "nat \<Rightarrow> nat"
  shell_pairs :: "(nat \<times> nat) list"
  shell_pair_value :: "nat \<Rightarrow> nat \<Rightarrow> real"
  compute_shell3 :: "nat \<Rightarrow> nat \<Rightarrow> nat \<Rightarrow> real list"
  J_metric :: matrix
  df_nthreads :: nat
  thread_of :: "nat \<Rightarrow> nat"

text \<open>Lines 629--637: the largest diagonal entry of the metric within each auxiliary shell.\<close>

definition J_metric_shell_diag :: "df_context \<Rightarrow> real list" where
  "J_metric_shell_diag E =
     map (\<lambda>s. fold (\<lambda>bf acc. max acc (J_metric E ! bf ! bf))
               [aux_function_index E s ..< aux_function_index E s + aux_nfunction E s] 0)
         [0..<aux_nshell E]"

text \<open>Lines 639--658: the largest density magnitude within each pair of orbital shells.\<close>

definition Dshell_max :: "df_context \<Rightarrow> matrix list \<Rightarrow> matrix" where
  "Dshell_max E D =
     map (\<lambda>M. map (\<lambda>N.
            fold (\<lambda>jki acc.
              fold (\<lambda>m acc.
                fold (\<lambda>n acc. max acc \<bar>D ! jki ! m ! n\<bar>)
                  [primary_function_index E N ..<
                     primary_function_index E N + primary_nfunction E N] acc)
                [primary_function_index E M ..<
                   primary_function_index E M + primary_nfunction E M] acc)
              [0..<length D] 0)
          [0..<primary_nshell E])
         [0..<primary_nshell E]"

text \<open>The test of line 684.\<close>

definition forward_screened :: "df_context \<Rightarrow> real \<Rightarrow> matrix \<Rightarrow> real list \<Rightarrow> nat \<Rightarrow> bool" where
  "forward_screened E thresh2 Dshell Jdiag MNP =
     (let nshellpair = length (shell_pairs E);
          MN = MNP mod nshellpair;
          P = MNP div nshellpair;
          M = fst (shell_pairs E ! MN);
          N = snd (shell_pairs E ! MN)
      in Dshell ! M ! N * Dshell ! M ! N * Jdiag ! P * shell_pair_value E M N < thresh2)"

text \<open>
  Lines 688--711: the block of the triplet is evaluated and contracted with every
  density matrix into the buffer of the thread that runs the pass.
\<close>

definition contract_block ::
  "real list \<Rightarrow> matrix \<Rightarrow> nat \<Rightarrow> nat \<Rightarrow> nat \<Rightarrow> nat \<Rightarrow> nat \<Rightarrow> nat \<Rightarrow> bool \<Rightarrow> vector \<Rightarrow> vector" where
  "contract_block buffer Dp pstart np mstart nm nstart nn offdiag GTp =
     (let triples = concat (map (\<lambda>p. concat (map (\<lambda>m. map (\<lambda>n. (p, m, n))
                       [nstart..<nstart + nn]) [mstart..<mstart + nm])) [pstart..<pstart + np])
      in fold (\<lambda>((p, m, n), index) G.
                 (let G1 = G[p := G ! p + buffer ! index * Dp ! m ! n]
                  in if offdiag then G1[p := G1 ! p + buffer ! index * Dp ! n ! m] else G1))
              (zip triples [0..<length triples]) GTp)"

definition contract_triplet ::
  "df_context \<Rightarrow> matrix list \<Rightarrow> nat \<Rightarrow> vector list list \<Rightarrow> vector list list" where
  "contract_triplet E D MNP GT =
     (let nshellpair = length (shell_pairs E);
          MN = MNP mod nshellpair;
          P = MNP div nshellpair;
          rank = thread_of E MNP;
          M = fst (shell_pairs E ! MN);
          N = snd (shell_pairs E ! MN);
          buffer = compute_shell3 E P M N
      in for_each_index (length D)
           (\<lambda>jki GTjki. GTjki[rank :=
              contract_block buffer (D ! jki)
                (aux_function_index E P) (aux_nfunction E P)
                (primary_function_index E M) (primary_nfunction E M)
                (primary_function_index E N) (primary_nfunction E N)
                (N \<noteq> M) (GTjki ! rank)]) GT)"

text \<open>One pass of the loop of lines 673--713, with its counter of evaluated triplets.\<close>

definition forward_triplet ::
  "df_context \<Rightarrow> matrix list \<Rightarrow> real \<Rightarrow> matrix \<Rightarrow> real list \<Rightarrow> nat
     \<Rightarrow> vector list list \<times> nat \<Rightarrow> vector list list \<times> nat" where
  "forward_triplet E D thresh2 Dshell Jdiag MNP acc =
     (if forward_screened E thresh2 Dshell Jdiag MNP then acc
      else (contract_triplet E D MNP (fst acc), snd acc + 1))"

text \<open>
  The first contraction as a whole: the buffers \<^verbatim>\<open>GT[jki][thread]\<close> start at zero and
  the passes run over all \<^verbatim>\<open>nshell_aux * nshellpair\<close> triplets.
\<close>

definition forward_contraction ::
  "df_context \<Rightarrow> options \<Rightarrow> matrix list \<Rightarrow> vector list list \<times> nat" where
  "forward_contraction E opts D =
     (let nshelltriplet = aux_nshell E * length (shell_pairs E);
          thresh2 = INTS_TOLERANCE opts * INTS_TOLERANCE opts;
          GT0 = replicate (length D) (replicate (df_nthreads E) (replicate (aux_nbf E) 0))
      in fold (forward_triplet E D thresh2 (Dshell_max E D) (J_metric_shell_diag E))
           [0..<nshelltriplet] (GT0, 0))"

text \<open>
  The test as the specification words it: the product of the density bound, the
  metric-diagonal bound and the Schwarz bound is below the squared tolerance.
\<close>

definition spec_forward_screened ::
  "df_context \<Rightarrow> real \<Rightarrow> matrix \<Rightarrow> real list \<Rightarrow> nat \<Rightarrow> bool" where
  "spec_forward_screened E thresh2 Dshell Jdiag MNP =
     (let nshellpair = length (shell_pairs E);
          MN = MNP mod nshellpair;
          P = MNP div nshellpair;
          M = fst (shell_pairs E ! MN);
          N = snd (shell_pairs E ! MN)
      in Dshell ! M ! N * Jdiag ! P * shell_pair_value E M N < thresh2)"

text \<open>
  A sample: one orbital shell and one auxiliary shell of one function each, a unit
  metric, a Schwarz value of \<open>10\<^sup>-\<^sup>5\<close>, a unit integral, one thread.
\<close>

definition sample_df :: df_context where
  "sample_df =
     \<lparr>primary_nshell = 1, primary_nfunction = (\<lambda>s. 1), primary_function_index = (\<lambda>s. s),
      aux_nshell = 1, aux_nbf = 1, aux_nfunction = (\<lambda>s. 1), aux_function_index = (\<lambda>s. s),
      shell_pairs = [(0, 0)], shell_pair_value = (\<lambda>M N. 1 / 100000),
      compute_shell3 = (\<lambda>P M N. [1]), J_metric = [[1]],
      df_nthreads = 1, thread_of = (\<lambda>MNP. 0)\<rparr>"

section \<open>The LinK builder: candidate lists and quartet contraction\<close>

text \<open>
  What the quartet loop of \<^verbatim>\<open>build_linK\<close> reads: the number of orbital shells, the
  pre-sorted lists \<^verbatim>\<open>significant_kets\<close> and \<^verbatim>\<open>significant_bras\<close> (one list of shells
  per shell), the density bound \<^verbatim>\<open>shell_pair_max_density\<close> and the squared quartet
  bound \<^verbatim>\<open>shell_ceiling2\<close> of the four-index engine, and the exchange cutoff.
\<close>

record linK_context =
  nshell :: nat
  significant_kets :: "nat list list"
  significant_bras :: "nat list list"
  shell_pair_max_density :: "nat \<Rightarrow> nat \<Rightarrow> real"
  shell_ceiling2 :: "nat \<Rightarrow> nat \<Rightarrow> nat \<Rightarrow> nat \<Rightarrow> real"
  linK_cutoff :: real

text \<open>
  The sets filled while the candidates of one bra pair \<open>(P, Q)\<close> are collected:
  \<^verbatim>\<open>ML_PQ\<close>, and the entries \<^verbatim>\<open>P_stripeout_list[dP]\<close> and \<^verbatim>\<open>Q_stripeout_list[dQ]\<close>.
  \<open>examined\<close> is not a variable of the source: it records, in order, every pair
  \<open>(R, S)\<close> for which the bound of line 1047 or 1065 is computed.
\<close>

record linK_lists =
  ML_PQ :: "nat set"
  P_stripeout :: "nat set"
  Q_stripeout :: "nat set"
  examined :: "(nat \<times> nat) list"

text \<open>
  The bound of lines 1047 and 1065. The shell \<open>B\<close> of the density bound is \<open>P\<close> in the
  chain that forms \<^verbatim>\<open>ML_P\<close> and \<open>Q\<close> in the chain that forms \<^verbatim>\<open>ML_Q\<close>.
\<close>

definition screen_val :: "linK_context \<Rightarrow> nat \<Rightarrow> nat \<Rightarrow> nat \<Rightarrow> nat \<Rightarrow> nat \<Rightarrow> real" where
  "screen_val E B P Q R S = shell_pair_max_density E B R * sqrt (shell_ceiling2 E P Q R S)"

text \<open>
  The inner loop (lines 1046--1057 and 1064--1075) over the bra list of \<open>R\<close>; \<open>chain_P\<close>
  tells the first chain from the second. The result carries \<^verbatim>\<open>is_significant\<close>.
\<close>

fun scan_bras ::
  "linK_context \<Rightarrow> bool \<Rightarrow> nat \<Rightarrow> nat \<Rightarrow> nat \<Rightarrow> nat list \<Rightarrow> linK_lists \<times> bool
     \<Rightarrow> linK_lists \<times> bool" where
  "scan_bras E chain_P P Q R [] acc = acc"
| "scan_bras E chain_P P Q R (S # rest) (L, is_significant) =
     (let L1 = L\<lparr>examined := examined L @ [(R, S)]\<rparr> in
      if screen_val E (if chain_P then P else Q) P Q R S \<ge> linK_cutoff E then
        (let RS = (if R \<ge> S then R * nshell E + S else S * nshell E + R) in
         if RS > P * nshell E + Q then scan_bras E chain_P P Q R rest (L1, True)
         else scan_bras E chain_P P Q R rest
                (if chain_P
                 then L1\<lparr>ML_PQ := insert RS (ML_PQ L1), Q_stripeout := insert S (Q_stripeout L1)\<rparr>
                 else L1\<lparr>ML_PQ := insert RS (ML_PQ L1), P_stripeout := insert S (P_stripeout L1)\<rparr>,
                 True))
      else (L1, is_significant))"

text \<open>The outer loop (lines 1044--1059 and 1062--1077) over a ket list.\<close>

fun scan_kets ::
  "linK_context \<Rightarrow> bool \<Rightarrow> nat \<Rightarrow> nat \<Rightarrow> nat list \<Rightarrow> linK_lists \<Rightarrow> linK_lists" where
  "scan_kets E chain_P P Q [] L = L"
| "scan_kets E chain_P P Q (R # rest) L =
     (case scan_bras E chain_P P Q R (significant_bras E ! R) (L, False) of
        (L1, is_significant) \<Rightarrow>
          if \<not> is_significant then L1 else scan_kets E chain_P P Q rest L1)"

text \<open>Lines 1041--1077: \<^verbatim>\<open>ML_PQ\<close> starts empty and the two chains fill it in turn.\<close>

definition form_ML_PQ :: "linK_context \<Rightarrow> nat \<Rightarrow> nat \<Rightarrow> linK_lists \<Rightarrow> linK_lists" where
  "form_ML_PQ E P Q L =
     scan_kets E False P Q (significant_kets E ! Q)
       (scan_kets E True P Q (significant_kets E ! P) (L\<lparr>ML_PQ := {}\<rparr>))"

text \<open>
  The part of a sorted list that a scan with early exit reads: the candidates that pass,
  up to and including the first one that fails.
\<close>

definition read_prefix :: "('a \<Rightarrow> bool) \<Rightarrow> 'a list \<Rightarrow> 'a list" where
  "read_prefix passes xs = take (Suc (length (takeWhile passes xs))) xs"

text \<open>Lines 1129--1132: the degeneracy prefactor of a quartet.\<close>

definition linK_prefactor :: "nat \<Rightarrow> nat \<Rightarrow> nat \<Rightarrow> nat \<Rightarrow> real" where
  "linK_prefactor P Q R S =
     (let prefactor = 1.0;
          prefactor = (if P = Q then prefactor * 0.5 else prefactor);
          prefactor = (if R = S then prefactor * 0.5 else prefactor);
          prefactor = (if P = R \<and> Q = S then prefactor * 0.5 else prefactor)
      in prefactor)"

text \<open>
  The four sub-blocks \<^verbatim>\<open>K1p\<close>, \<^verbatim>\<open>K2p\<close>, \<^verbatim>\<open>K3p\<close>, \<^verbatim>\<open>K4p\<close> of the buffer of a task, each
  addressed from its own first entry; they are disjoint row ranges of one matrix.
\<close>

record kt_blocks =
  K1p :: "nat \<Rightarrow> real"
  K2p :: "nat \<Rightarrow> real"
  K3p :: "nat \<Rightarrow> real"
  K4p :: "nat \<Rightarrow> real"

text \<open>The quantities that lines 1094--1108 read off the basis set for a quartet.\<close>

record quartet_shells =
  shell_P_nfunc :: nat
  shell_Q_nfunc :: nat
  shell_R_nfunc :: nat
  shell_S_nfunc :: nat
  shell_P_start :: nat
  shell_Q_start :: nat
  shell_R_start :: nat
  shell_S_start :: nat
  shell_P_offset :: nat
  shell_Q_offset :: nat

text \<open>Lines 1140--1149: the four updates for one integral of the block.\<close>

definition scatter_integral ::
  "real \<Rightarrow> nat \<Rightarrow> quartet_shells \<Rightarrow> matrix \<Rightarrow> nat \<times> nat \<times> nat \<times> nat \<Rightarrow> real
     \<Rightarrow> kt_blocks \<Rightarrow> kt_blocks" where
  "scatter_integral prefactor nbf G Dp pqrs integral B =
     (case pqrs of (p, q, r, s) \<Rightarrow>
        B\<lparr>K1p := (K1p B)((p + shell_P_offset G) * nbf + r + shell_R_start G :=
                   K1p B ((p + shell_P_offset G) * nbf + r + shell_R_start G)
                   + prefactor * (Dp ! (q + shell_Q_start G) ! (s + shell_S_start G)) * integral),
          K2p := (K2p B)((p + shell_P_offset G) * nbf + s + shell_S_start G :=
                   K2p B ((p + shell_P_offset G) * nbf + s + shell_S_start G)
                   + prefactor * (Dp ! (q + shell_Q_start G) ! (r + shell_R_start G)) * integral),
          K3p := (K3p B)((q + shell_Q_offset G) * nbf + r + shell_R_start G :=
                   K3p B ((q + shell_Q_offset G) * nbf + r + shell_R_start G)
                   + prefactor * (Dp ! (p + shell_P_start G) ! (s + shell_S_start G)) * integral),
          K4p := (K4p B)((q + shell_Q_offset G) * nbf + s + shell_S_start G :=
                   K4p B ((q + shell_Q_offset G) * nbf + s + shell_S_start G)
                   + prefactor * (Dp ! (p + shell_P_start G) ! (r + shell_R_start G)) * integral)\<rparr>)"

text \<open>
  Lines 1129--1153 for one density matrix: the prefactor, then the loop nest over the
  functions of the four shells, which walks the integral buffer in step.
\<close>

definition contract_quartet ::
  "nat \<Rightarrow> quartet_shells \<Rightarrow> nat \<Rightarrow> nat \<Rightarrow> nat \<Rightarrow> nat \<Rightarrow> matrix \<Rightarrow> real list
     \<Rightarrow> kt_blocks \<Rightarrow> kt_blocks" where
  "contract_quartet nbf G P Q R S Dp buffer B =
     (let prefactor = linK_prefactor P Q R S;
          quads = concat (map (\<lambda>p. concat (map (\<lambda>q. concat (map (\<lambda>r. map (\<lambda>s. (p, q, r, s))
                    [0..<shell_S_nfunc G]) [0..<shell_R_nfunc G]))
                    [0..<shell_Q_nfunc G])) [0..<shell_P_nfunc G])
      in fold (\<lambda>(pqrs, index). scatter_integral prefactor nbf G Dp pqrs (buffer ! index))
           (zip quads [0..<length quads]) B)"

text \<open>
  Samples. Three shells, every ket list and every bra list is \<open>[0, 1, 2]\<close>, the density
  bound is 1 everywhere and the cutoff is 1; the squared quartet bound is 4 for the ket
  pairs \<open>(0, 0)\<close>, \<open>(2, 0)\<close>, \<open>(1, 1)\<close> and \<open>(1, 2)\<close> and 0 for the other five. Then
  empty candidate sets, a zeroed task buffer, and four shells of one function each.
\<close>

definition sample_linK :: linK_context where
  "sample_linK =
     \<lparr>nshell = 3,
      significant_kets = [[0, 1, 2], [0, 1, 2], [0, 1, 2]],
      significant_bras = [[0, 1, 2], [0, 1, 2], [0, 1, 2]],
      shell_pair_max_density = (\<lambda>P R. 1),
      shell_ceiling2 = (\<lambda>P Q R S. if R = 1 then (if S = 0 then 0 else 4)
                                   else (if S = 0 then 4 else 0)),
      linK_cutoff = 1\<rparr>"

definition empty_lists :: linK_lists where
  "empty_lists = \<lparr>ML_PQ = {}, P_stripeout = {}, Q_stripeout = {}, examined = []\<rparr>"

definition zero_blocks :: kt_blocks where
  "zero_blocks = \<lparr>K1p = (\<lambda>i. 0), K2p = (\<lambda>i. 0), K3p = (\<lambda>i. 0), K4p = (\<lambda>i. 0)\<rparr>"

definition one_function_shells :: quartet_shells where
  "one_function_shells =
     \<lparr>shell_P_nfunc = 1, shell_Q_nfunc = 1, shell_R_nfunc = 1, shell_S_nfunc = 1,
      shell_P_start = 0, shell_Q_start = 0, shell_R_start = 0, shell_S_start = 0,
      shell_P_offset = 0, shell_Q_offset = 0\<rparr>"

section \<open>The COSX builder: the grid loop of \<^verbatim>\<open>build_COSK\<close>\<close>

text \<open>
  A block of the quadrature grid as the builder sees it: its points and weights, its
  local-to-global maps of basis functions and shells, the basis-function values that
  \<^verbatim>\<open>compute_functions\<close> leaves under \<^verbatim>\<open>"PHI"\<close>, and the buffer that
  \<^verbatim>\<open>compute_shell(NU, TAU)\<close> of the electrostatic integral leaves once the origin is
  set to point \<open>g\<close> of the block.
\<close>

record grid_block =
  npoints :: nat
  block_x :: "real list"
  block_y :: "real list"
  block_z :: "real list"
  block_w :: "real list"
  functions_local_to_global :: "nat list"
  shells_local_to_global :: "nat list"
  basis_values_PHI :: matrix
  electrostatic_shell :: "nat \<Rightarrow> nat \<Rightarrow> nat \<Rightarrow> real list"

text \<open>
  What else the builder reads: the orbital basis and the molecule, the shell extents of
  the grid, the bound matrix returned by \<^verbatim>\<open>compute_esp_bound\<close>, the blocks of the grid
  and the overlap metric chosen by \<^verbatim>\<open>early_screening_\<close>, the three COSX options, and
  the schedule of the parallel loop.
\<close>

record cosk_context =
  cosk_nbf :: nat
  cosk_nshell :: nat
  cosk_nfunction :: "nat \<Rightarrow> nat"
  shell_to_center :: "nat \<Rightarrow> nat"
  center_x :: "nat \<Rightarrow> real"
  center_y :: "nat \<Rightarrow> real"
  center_z :: "nat \<Rightarrow> real"
  distance_matrix :: matrix
  shell_extents :: "real list"
  esp_bound :: matrix
  grid_blocks :: "grid_block list"
  Q_overlap :: matrix
  kscreen :: real
  dscreen :: real
  overlap_fitted :: bool
  cosk_nthreads :: nat
  cosk_thread_of :: "nat \<Rightarrow> nat"

text \<open>
  Modelled from the spec: \<^verbatim>\<open>linalg::doublet\<close> and \<^verbatim>\<open>Matrix::absmax\<close> are not part of
  this file. The spec has the builder "contract" X with the density, and G with X or
  with the metric slice: \<open>doublet A B transA transB\<close> is the product of \<open>A\<close> and \<open>B\<close>,
  each transposed first when its flag is set; \<open>absmax\<close> is the largest magnitude of an
  entry.
\<close>

definition doublet :: "matrix \<Rightarrow> matrix \<Rightarrow> bool \<Rightarrow> bool \<Rightarrow> matrix" where
  "doublet A B transA transB =
     (let A1 = (if transA then transpose A else A);
          B1 = (if transB then B else transpose B)
      in map (\<lambda>row. map (\<lambda>col. sum_list (map2 (\<lambda>a b. a * b) row col)) B1) A1)"

definition absmax :: "matrix \<Rightarrow> real" where
  "absmax M = fold (\<lambda>row acc. fold (\<lambda>v acc. max acc \<bar>v\<bar>) row acc) M 0"

text \<open>The lambda \<^verbatim>\<open>sign\<close> of line 1537.\<close>

definition sign :: "real \<Rightarrow> real" where
  "sign val = (if val \<ge> 0 then 1 else - 1)"

text \<open>Lines 1298--1306: the shells whose extents overlap the extent of a given shell.\<close>

definition shell_extent_map :: "cosk_context \<Rightarrow> nat list list" where
  "shell_extent_map E =
     map (\<lambda>s1. filter (\<lambda>s2.
            distance_matrix E ! shell_to_center E s1 ! shell_to_center E s2
              \<le> shell_extents E ! s2 + shell_extents E ! s1)
          [0..<cosk_nshell E])
         [0..<cosk_nshell E]"

text \<open>
  Lines 1355--1373: for a list of shells, the index of the first function of each shell
  when the functions of the listed shells are laid out one shell after the other.
\<close>

definition shell_offsets :: "(nat \<Rightarrow> nat) \<Rightarrow> nat list \<Rightarrow> nat list" where
  "shell_offsets nfunction shells =
     (if length shells > 0
      then fold (\<lambda>ind acc. acc @ [nfunction (shells ! ind) + last acc])
             [0..<length shells - 1] [0]
      else [])"

text \<open>Lines 1599--1608 for one density matrix.\<close>

definition esp_contract ::
  "real \<Rightarrow> real list \<Rightarrow> matrix \<Rightarrow> nat \<Rightarrow> nat \<Rightarrow> nat \<Rightarrow> nat \<Rightarrow> nat \<Rightarrow> bool \<Rightarrow> matrix \<Rightarrow> matrix" where
  "esp_contract sgnw int_buff F g nu_start num_nu tau_start num_tau symm G =
     (let pairs = concat (map (\<lambda>nu. map (\<lambda>tau. (nu, tau)) [tau_start..<tau_start + num_tau])
                    [nu_start..<nu_start + num_nu])
      in fold (\<lambda>((nu, tau), index) G.
                 (let G1 = G[nu := (G ! nu)[g := G ! nu ! g + sgnw * int_buff ! index * F ! g ! tau]]
                  in if symm
                     then G1[tau := (G1 ! tau)[g := G1 ! tau ! g + sgnw * int_buff ! index * F ! g ! nu]]
                     else G1))
           (zip pairs [0..<length pairs]) G)"

text \<open>
  Lines 1326--1624 for one block: the density slice and its shell maxima, the
  density-significant shells, X, F and its maxima, the slice of the overlap metric, the
  loop over shell pairs and points with its two screening tests, and the contraction of
  G with X or Q. The result also carries the two benchmark counters.
\<close>

definition cosk_block ::
  "cosk_context \<Rightarrow> matrix list \<Rightarrow> grid_block \<Rightarrow> matrix list \<times> nat \<times> nat" where
  "cosk_block E D block =
     (let njk = length D;
          nbf = cosk_nbf E;
          nshell = cosk_nshell E;
          npoints_block = npoints block;
          x = block_x block; y = block_y block; z = block_z block; w = block_w block;
          bf_map = functions_local_to_global block;
          shell_map = shells_local_to_global block;
          nbf_block = length bf_map;
          ns_block = length shell_map;
          bf_map_all = [0..<nbf];
          shell_map_all = [0..<nshell];
          nbf_block_all = length bf_map_all;
          ns_block_all = length shell_map_all;
          shell_map_all_to_bf_map_all = shell_offsets (cosk_nfunction E) shell_map_all;
          shell_map_to_bf_map = shell_offsets (cosk_nfunction E) shell_map;
          D_block = map (\<lambda>jki. map (\<lambda>tau_ind. map (\<lambda>kappa_ind.
                        D ! jki ! (bf_map_all ! tau_ind) ! (bf_map ! kappa_ind))
                      [0..<nbf_block]) [0..<nbf_block_all]) [0..<njk];
          D_block_shell = map (\<lambda>TAU_ind. map (\<lambda>KAPPA_ind.
                fold (\<lambda>jki acc.
                  fold (\<lambda>bf1 acc.
                    fold (\<lambda>bf2 acc. max acc \<bar>D_block ! jki ! bf1 ! bf2\<bar>)
                      [shell_map_to_bf_map ! KAPPA_ind ..<
                         shell_map_to_bf_map ! KAPPA_ind + cosk_nfunction E (shell_map ! KAPPA_ind)] acc)
                    [shell_map_all_to_bf_map_all ! TAU_ind ..<
                       shell_map_all_to_bf_map_all ! TAU_ind
                         + cosk_nfunction E (shell_map_all ! TAU_ind)] acc)
                  [0..<njk] 0)
              [0..<ns_block]) [0..<ns_block_all];
          shell_map_tau = filter (\<lambda>TAU. list_ex (\<lambda>KAPPA_ind.
                              D_block_shell ! TAU ! KAPPA_ind > dscreen E) [0..<ns_block])
                            [0..<ns_block_all];
          point_values = basis_values_PHI block;
          X_block = map (\<lambda>p. map (\<lambda>k. point_values ! p ! k * sqrt \<bar>w ! p\<bar>) [0..<nbf_block])
                      [0..<npoints_block];
          X_block_bfmax = map (\<lambda>p. fold (\<lambda>k acc. max acc \<bar>X_block ! p ! k\<bar>) [0..<nbf_block] 0)
                            [0..<npoints_block];
          X_block_max = absmax X_block;
          F_block = map (\<lambda>jki. doublet X_block (D_block ! jki) False True) [0..<njk];
          F_block_shell = map (\<lambda>p. map (\<lambda>TAU_local.
                fold (\<lambda>jki acc.
                  fold (\<lambda>tau acc. max acc \<bar>F_block ! jki ! p ! tau\<bar>)
                    [shell_map_all_to_bf_map_all ! TAU_local ..<
                       shell_map_all_to_bf_map_all ! TAU_local
                         + cosk_nfunction E (shell_map_all ! TAU_local)] acc)
                  [0..<njk] 0)
              [0..<length shell_map_all]) [0..<npoints_block];
          F_block_gmax = map (\<lambda>TAU_local.
                fold (\<lambda>p acc.
                  fold (\<lambda>jki acc.
                    fold (\<lambda>tau acc. max acc \<bar>F_block ! jki ! p ! tau\<bar>)
                      [shell_map_all_to_bf_map_all ! TAU_local ..<
                         shell_map_all_to_bf_map_all ! TAU_local
                           + cosk_nfunction E (shell_map_all ! TAU_local)] acc)
                    [0..<njk] acc)
                  [0..<npoints_block] 0)
              [0..<length shell_map_all];
          Q_slice = map (\<lambda>mu_local. map (\<lambda>nu_local.
                        Q_overlap E ! (bf_map ! mu_local) ! (bf_map ! nu_local))
                      [0..<nbf_block]) [0..<nbf_block];
          Q_block = doublet X_block Q_slice False True;
          G0 = replicate njk (replicate nbf_block_all (replicate npoints_block 0));
          (G_block, int_shells_total, int_shells_computed) =
            fold (\<lambda>TAU acc.
              fold (\<lambda>NU (G, total, computed).
                (let symm = (NU \<noteq> TAU \<and> NU \<in> set shell_map_tau) in
                 if symm \<and> TAU > NU then (G, total, computed)
                 else
                   (let total1 = total + npoints_block;
                        k_bound = X_block_max * esp_bound E ! NU ! TAU * F_block_gmax ! TAU;
                        k_bound = (if symm
                                   then max k_bound (X_block_max * esp_bound E ! TAU ! NU * F_block_gmax ! NU)
                                   else k_bound)
                    in if k_bound < kscreen E then (G, total1, computed)
                       else
                         fold (\<lambda>g (G, total, computed).
                           (let x_TAU = center_x E (shell_to_center E TAU);
                                y_TAU = center_y E (shell_to_center E TAU);
                                z_TAU = center_z E (shell_to_center E TAU);
                                x_NU = center_x E (shell_to_center E NU);
                                y_NU = center_y E (shell_to_center E NU);
                                z_NU = center_z E (shell_to_center E NU);
                                dist_TAU_g = sqrt ((x_TAU - x ! g) * (x_TAU - x ! g)
                                                 + (y_TAU - y ! g) * (y_TAU - y ! g)
                                                 + (z_TAU - z ! g) * (z_TAU - z ! g));
                                dist_NU_g = sqrt ((x_NU - x ! g) * (x_NU - x ! g)
                                                + (y_NU - y ! g) * (y_NU - y ! g)
                                                + (z_NU - z ! g) * (z_NU - z ! g));
                                dist_NUTAU_g = min (dist_TAU_g - shell_extents E ! TAU)
                                                   (dist_NU_g - shell_extents E ! NU);
                                dist_decay = 1 / max 1 dist_NUTAU_g;
                                k_bound = X_block_bfmax ! g * esp_bound E ! NU ! TAU * dist_decay
                                            * F_block_shell ! g ! TAU;
                                k_bound = (if symm
                                           then max k_bound (X_block_bfmax ! g * esp_bound E ! TAU ! NU
                                                  * dist_decay * F_block_shell ! g ! NU)
                                           else k_bound)
                            in if k_bound < kscreen E then (G, total, computed)
                               else
                                 (for_each_index njk
                                    (\<lambda>jki Gjki. esp_contract (sign (w ! g))
                                       (electrostatic_shell block g NU TAU) (F_block ! jki) g
                                       (shell_map_all_to_bf_map_all ! NU) (cosk_nfunction E NU)
                                       (shell_map_all_to_bf_map_all ! TAU) (cosk_nfunction E TAU)
                                       symm Gjki) G,
                                  total, computed + 1)))
                           [0..<npoints_block] (G, total1, computed))))
                (shell_extent_map E ! TAU) acc)
              shell_map_tau (G0, 0, 0);
          KT_block = map (\<lambda>jki.
                if overlap_fitted E then doublet Q_block (G_block ! jki) True True
                else doublet X_block (G_block ! jki) True True) [0..<njk]
      in (KT_block, int_shells_total, int_shells_computed))"

text \<open>Lines 1625--1633: the block contribution is added into the buffer of the thread.\<close>

definition cosk_scatter :: "nat list \<Rightarrow> nat list \<Rightarrow> matrix \<Rightarrow> matrix \<Rightarrow> matrix" where
  "cosk_scatter bf_map bf_map_all KT_block KTp =
     fold (\<lambda>mu_ind KTp.
        fold (\<lambda>nu_ind KTp.
           KTp[bf_map ! mu_ind := (KTp ! (bf_map ! mu_ind))[bf_map_all ! nu_ind :=
                 KTp ! (bf_map ! mu_ind) ! (bf_map_all ! nu_ind) + KT_block ! mu_ind ! nu_ind]])
          [0..<length bf_map_all] KTp)
       [0..<length bf_map] KTp"

text \<open>Lines 1267--1278 and 1319--1636: the loop over the blocks, from zeroed buffers.\<close>

definition cosk_grid_loop :: "cosk_context \<Rightarrow> matrix list \<Rightarrow> matrix list list" where
  "cosk_grid_loop E D =
     (let njk = length D; nbf = cosk_nbf E;
          KT0 = replicate njk (replicate (cosk_nthreads E) (replicate nbf (replicate nbf 0)))
      in fold (\<lambda>bi KT.
           (let rank = cosk_thread_of E bi;
                block = grid_blocks E ! bi;
                KT_block = fst (cosk_block E D block)
            in for_each_index njk
                 (\<lambda>jki KTjki. KTjki[rank :=
                    cosk_scatter (functions_local_to_global block) [0..<nbf] (KT_block ! jki)
                      (KTjki ! rank)]) KT))
           [0..<length (grid_blocks E)] KT0)"

text \<open>
  A sample: two shells of one function each on one centre at the origin, and a grid of
  one block with one point of weight 1 at the origin, where the two basis functions
  take the values 1 and 1/2; the electrostatic integrals at that point are 1 on the
  diagonal and 1/2 off it; the tolerances are the defaults \<open>10\<^sup>-\<^sup>1\<^sup>1\<close> and \<open>10\<^sup>-\<^sup>1\<^sup>0\<close>.
\<close>

definition sample_block :: grid_block where
  "sample_block =
     \<lparr>npoints = 1, block_x = [0], block_y = [0], block_z = [0], block_w = [1],
      functions_local_to_global = [0, 1], shells_local_to_global = [0, 1],
      basis_values_PHI = [[1, 1 / 2]],
      electrostatic_shell = (\<lambda>g NU TAU. if NU = TAU then [1] else [1 / 2])\<rparr>"

definition sample_cosk :: cosk_context where
  "sample_cosk =
     \<lparr>cosk_nbf = 2, cosk_nshell = 2, cosk_nfunction = (\<lambda>s. 1),
      shell_to_center = (\<lambda>s. 0), center_x = (\<lambda>c. 0), center_y = (\<lambda>c. 0), center_z = (\<lambda>c. 0),
      distance_matrix = [[0]], shell_extents = [3, 3],
      esp_bound = [[1, 1], [1, 1]],
      grid_blocks = [sample_block], Q_overlap = [[1, 0], [0, 1]],
      kscreen = 1 / 100000000000, dscreen = 1 / 10000000000, overlap_fitted = False,
      cosk_nthreads = 1, cosk_thread_of = (\<lambda>bi. 0)\<rparr>"

subsection \<open>The stripe-out of a task\<close>

text \<open>
  Modelled from the spec: \<^verbatim>\<open>Matrix::scale\<close> of libmints is not part of this file; by
  the spec the buffers of a task "are scaled by 2". Lines 1164--1167.
\<close>

definition scale_blocks :: "real \<Rightarrow> kt_blocks \<Rightarrow> kt_blocks" where
  "scale_blocks a B =
     \<lparr>K1p = (\<lambda>i. a * K1p B i), K2p = (\<lambda>i. a * K2p B i),
      K3p = (\<lambda>i. a * K3p B i), K4p = (\<lambda>i. a * K4p B i)\<rparr>"

text \<open>
  What the stripe-out reads from the basis set (the number of basis functions and, for
  each shell, the index of its first function, its number of functions and its entry of
  \<^verbatim>\<open>basis_endpoints_for_shell\<close>) and from the task: the first shell and the number of
  shells of its two atoms, and the lists \<^verbatim>\<open>P_stripeout_list\<close> and
  \<^verbatim>\<open>Q_stripeout_list\<close>, each set in the order in which the loop walks it.
  \<^verbatim>\<open>basis_endpoints_for_shell[P]\<close> is the first function of shell \<open>P\<close> (line 855) and
  does not decrease with \<open>P\<close>, so the differences of lines 1180, 1183, 1202 and 1205
  are not negative; the \<^verbatim>\<open>int\<close> indices are natural numbers here, far below \<open>2\<^sup>3\<^sup>1\<close>
  since the buffers have \<^verbatim>\<open>nbf\<close> columns.
\<close>

record linK_basis =
  basis_nbf :: nat
  function_index :: "nat \<Rightarrow> nat"
  nfunction :: "nat \<Rightarrow> nat"
  basis_endpoints_for_shell :: "nat \<Rightarrow> nat"

record atom_pair_task =
  Pstart :: nat
  nPshell :: nat
  Qstart :: nat
  nQshell :: nat
  P_stripeout_list :: "nat list list"
  Q_stripeout_list :: "nat list list"

text \<open>The update \<^verbatim>\<open>Kp[i][j] += v\<close>.\<close>

definition add_to_entry :: "matrix \<Rightarrow> nat \<Rightarrow> nat \<Rightarrow> real \<Rightarrow> matrix" where
  "add_to_entry Kp i j v = Kp[i := (Kp ! i)[j := Kp ! i ! j + v]]"

text \<open>
  Lines 1178--1198, and lines 1200--1220 with Q for P: for every shell of the atom and
  every shell of its stripe-out list, the entries of two sub-blocks are added into K.
\<close>

definition stripeout_rows ::
  "linK_basis \<Rightarrow> nat \<Rightarrow> nat \<Rightarrow> nat list list \<Rightarrow> (nat \<Rightarrow> real) \<Rightarrow> (nat \<Rightarrow> real) \<Rightarrow> matrix \<Rightarrow> matrix" where
  "stripeout_rows B Xstart nXshell stripeout_list Ka Kb Kp =
     fold (\<lambda>P Kp.
        (let dP = P - Xstart;
             shell_P_start = function_index B P;
             shell_P_nfunc = nfunction B P;
             shell_P_offset = basis_endpoints_for_shell B P - basis_endpoints_for_shell B Xstart
         in fold (\<lambda>S Kp.
              (let shell_S_start = function_index B S;
                   shell_S_nfunc = nfunction B S
               in fold (\<lambda>p Kp.
                    fold (\<lambda>s Kp.
                       add_to_entry
                         (add_to_entry Kp (shell_P_start + p) (shell_S_start + s)
                            (Ka ((p + shell_P_offset) * basis_nbf B + s + shell_S_start)))
                         (shell_P_start + p) (shell_S_start + s)
                         (Kb ((p + shell_P_offset) * basis_nbf B + s + shell_S_start)))
                      [0..<shell_S_nfunc] Kp)
                    [0..<shell_P_nfunc] Kp))
              (stripeout_list ! dP) Kp))
       [Xstart..<Xstart + nXshell] Kp"

text \<open>Lines 1164--1222 for one density matrix.\<close>

definition stripeout :: "linK_basis \<Rightarrow> atom_pair_task \<Rightarrow> kt_blocks \<Rightarrow> matrix \<Rightarrow> matrix" where
  "stripeout B T KT Kp =
     (let KT2 = scale_blocks 2.0 KT
      in stripeout_rows B (Qstart T) (nQshell T) (Q_stripeout_list T) (K3p KT2) (K4p KT2)
           (stripeout_rows B (Pstart T) (nPshell T) (P_stripeout_list T) (K1p KT2) (K2p KT2) Kp))"

text \<open>
  A task in which a single quartet survives, for one density matrix: the buffer is
  cleared (lines 1116--1121), the quartet is contracted into it, the task is striped
  out into K, and K is symmetrized (lines 1226--1228).
\<close>

definition linK_one_quartet ::
  "linK_basis \<Rightarrow> atom_pair_task \<Rightarrow> quartet_shells \<Rightarrow> nat \<Rightarrow> nat \<Rightarrow> nat \<Rightarrow> nat \<Rightarrow> matrix \<Rightarrow> real list
     \<Rightarrow> matrix \<Rightarrow> matrix" where
  "linK_one_quartet B T G P Q R S Dp buffer Kp =
     hermitivitize
       (stripeout B T (contract_quartet (basis_nbf B) G P Q R S Dp buffer zero_blocks) Kp)"

text \<open>
  The smallest setting: \<open>n\<close> shells of one function each, every shell on an atom of its
  own, so that shell \<open>X\<close> starts at function \<open>X\<close> and has offset 0 in its atom; the task
  of the quartet \<open>(P, Q, R, S)\<close>. The stripe-out lists are sets of shells that the chains
  fill (lines 1054 and 1072); here both hold \<open>R\<close> and \<open>S\<close>, so that every entry of the
  buffers that the quartet touched is written out.
\<close>

definition unit_basis :: "nat \<Rightarrow> linK_basis" where
  "unit_basis n =
     \<lparr>basis_nbf = n, function_index = (\<lambda>X. X), nfunction = (\<lambda>X. 1),
      basis_endpoints_for_shell = (\<lambda>X. X)\<rparr>"

definition unit_quartet :: "nat \<Rightarrow> nat \<Rightarrow> nat \<Rightarrow> nat \<Rightarrow> quartet_shells" where
  "unit_quartet P Q R S =
     \<lparr>shell_P_nfunc = 1, shell_Q_nfunc = 1, shell_R_nfunc = 1, shell_S_nfunc = 1,
      shell_P_start = P, shell_Q_start = Q, shell_R_start = R, shell_S_start = S,
      shell_P_offset = 0, shell_Q_offset = 0\<rparr>"

definition unit_task :: "nat \<Rightarrow> nat \<Rightarrow> nat \<Rightarrow> nat \<Rightarrow> atom_pair_task" where
  "unit_task P Q R S =
     \<lparr>Pstart = P, nPshell = 1, Qstart = Q, nQshell = 1,
      P_stripeout_list = [remdups [R, S]], Q_stripeout_list = [remdups [R, S]]\<rparr>"

text \<open>
  The reference for "no double counting". The integral \<open>(PQ|RS)\<close> stands for all its
  index permutations, which are these eight when no two coincide; \<open>exchange_reference\<close>
  is the exchange matrix \<open>K[a][c] = \<Sum> (ab|cd) D[b][d]\<close> of that one integral, every
  distinct permutation taken once.
\<close>

definition permuted_quartets :: "nat \<Rightarrow> nat \<Rightarrow> nat \<Rightarrow> nat \<Rightarrow> (nat \<times> nat \<times> nat \<times> nat) list" where
  "permuted_quartets P Q R S =
     [(P, Q, R, S), (Q, P, R, S), (P, Q, S, R), (Q, P, S, R),
      (R, S, P, Q), (S, R, P, Q), (R, S, Q, P), (S, R, Q, P)]"

definition exchange_term :: "matrix \<Rightarrow> real \<Rightarrow> nat \<Rightarrow> nat \<Rightarrow> nat \<times> nat \<times> nat \<times> nat \<Rightarrow> real" where
  "exchange_term Dp integral a c abcd =
     (case abcd of (a', b, c', d) \<Rightarrow> if a = a' \<and> c = c' then Dp ! b ! d * integral else 0)"

definition exchange_reference ::
  "matrix \<Rightarrow> real \<Rightarrow> (nat \<times> nat \<times> nat \<times> nat) list \<Rightarrow> nat \<Rightarrow> nat \<Rightarrow> real" where
  "exchange_reference Dp integral quartets a c =
     sum_list (map (exchange_term Dp integral a c) (remdups quartets))"


text \<open>A matrix of \<open>n\<close> rows of \<open>n\<close> entries.\<close>

definition dims :: "nat \<Rightarrow> matrix \<Rightarrow> bool" where
  "dims n Kp = (length Kp = n \<and> (\<forall>r < n. length (Kp ! r) = n))"

section \<open>Properties of the set-up\<close>

lemmas sample_defs = sample_options_def sample_state_def sample_contractions_def
  sample_ready_def sample_after1_def sample_after2_def sample_after3_def sample_pre4_def

lemmas setup_defs = common_init_def derive_jk_types_def substr_def str_find_def
  str_length_def npos_def

lemmas matrix_defs = clone_def zero_matrix_def matrix_add_def matrix_subtract_def
  hermitivitize_def

lemmas iter_defs = compute_JK_incfock_pre_def compute_JK_def incfock_setup_def zero_def
  incfock_postiter_def kind_of_def build_DirectDFJ_def build_linK_def build_COSK_def
  for_each_index_def signed_modulo_int_def Let_def

lemma npos_succ: "npos + 1 = 0"
  by (simp add: npos_def)

lemma str_find_absent: "c \<notin> set s \<Longrightarrow> str_find s c = npos"
  by (simp add: str_find_def)

lemma str_find_present:
  "c \<in> set s \<Longrightarrow> str_find s c = of_nat (length (takeWhile (\<lambda>x. x \<noteq> c) s))"
  by (simp add: str_find_def)

lemma takeWhile_length_less:
  "c \<in> set s \<Longrightarrow> length (takeWhile (\<lambda>x. x \<noteq> c) s) < length s"
  by (induction s) auto

lemma unat_npos: "unat npos = 2 ^ 64 - 1"
  by (simp add: npos_def unsigned_minus_1_eq_mask mask_eq_exp_minus_1)

lemma unat_of_nat64: "n < 2 ^ 64 \<Longrightarrow> unat (of_nat n :: size_t) = n"
  by (simp add: unat_of_nat)

lemma unat_of_nat64_succ: "Suc n < 2 ^ 64 \<Longrightarrow> unat (of_nat n + 1 :: size_t) = Suc n"
proof -
  assume a: "Suc n < 2 ^ 64"
  have "(of_nat n + 1 :: size_t) = of_nat (Suc n)" by simp
  then show ?thesis using a unat_of_nat64[of "Suc n"] by (simp add: add.commute)
qed

lemma take_npos: "length s < 2 ^ 64 \<Longrightarrow> take (unat npos) s = s"
proof -
  assume "length s < 2 ^ 64"
  then have "length s \<le> unat npos" unfolding unat_npos by simp
  then show ?thesis by (rule take_all)
qed

lemma unat_str_length: "length s < 2 ^ 64 \<Longrightarrow> unat (str_length s) = length s"
  by (simp add: str_length_def unat_of_nat64)

lemma substr_prefix_absent:
  "length s < 2 ^ 64 \<Longrightarrow> c \<notin> set s \<Longrightarrow> substr s 0 (str_find s c) = Inr s"
  by (simp add: substr_def str_find_absent take_npos)

lemma substr_suffix_absent:
  "length s < 2 ^ 64 \<Longrightarrow> c \<notin> set s \<Longrightarrow> substr s (str_find s c + 1) (str_length s) = Inr s"
  by (simp add: substr_def str_find_absent npos_succ unat_str_length)

lemma substr_prefix_present:
  assumes "length s < 2 ^ 64" "c \<in> set s"
  shows "substr s 0 (str_find s c) = Inr (takeWhile (\<lambda>x. x \<noteq> c) s)"
proof -
  have "length (takeWhile (\<lambda>x. x \<noteq> c) s) < 2 ^ 64"
    using takeWhile_length_less[OF assms(2)] assms(1) by simp
  then have "unat (str_find s c) = length (takeWhile (\<lambda>x. x \<noteq> c) s)"
    by (simp add: str_find_present[OF assms(2)] unat_of_nat64)
  then show ?thesis
    by (simp add: substr_def takeWhile_eq_take[symmetric])
qed

lemma substr_suffix_present:
  assumes "length s < 2 ^ 64" "c \<in> set s"
  shows "substr s (str_find s c + 1) (str_length s) = Inr (tl (dropWhile (\<lambda>x. x \<noteq> c) s))"
proof -
  let ?n = "length (takeWhile (\<lambda>x. x \<noteq> c) s)"
  have lt: "?n < length s" by (rule takeWhile_length_less[OF assms(2)])
  then have "Suc ?n < 2 ^ 64" using assms(1) by simp
  then have u: "unat (str_find s c + 1) = Suc ?n"
    by (simp add: str_find_present[OF assms(2)] unat_of_nat64_succ)
  have d: "drop (Suc ?n) s = tl (dropWhile (\<lambda>x. x \<noteq> c) s)"
    by (simp add: dropWhile_eq_drop drop_Suc tl_drop)
  have "take (length s) (drop (Suc ?n) s) = drop (Suc ?n) s"
    by simp
  then have "substr s (str_find s c + 1) (str_length s) = Inr (drop (Suc ?n) s)"
    using lt unfolding substr_def u unat_str_length[OF assms(1)] by simp
  then show ?thesis
    unfolding d .
qed

lemma derive_jk_types_eq:
  assumes "length tag < 2 ^ 64"
  shows "derive_jk_types tag =
           Inr (takeWhile (\<lambda>c. c \<noteq> CHR ''+'') tag,
                if (if CHR ''+'' \<in> set tag then tl (dropWhile (\<lambda>c. c \<noteq> CHR ''+'') tag) else tag)
                     = takeWhile (\<lambda>c. c \<noteq> CHR ''+'') tag
                then ''NONE''
                else (if CHR ''+'' \<in> set tag then tl (dropWhile (\<lambda>c. c \<noteq> CHR ''+'') tag) else tag))"
proof (cases "CHR ''+'' \<in> set tag")
  case True
  then show ?thesis
    by (simp add: derive_jk_types_def substr_prefix_present[OF assms True]
        substr_suffix_present[OF assms True])
next
  case False
  then have tw: "takeWhile (\<lambda>c. c \<noteq> CHR ''+'') tag = tag"
    by (auto simp: takeWhile_eq_all_conv)
  show ?thesis
    unfolding tw derive_jk_types_def substr_prefix_absent[OF assms False]
      substr_suffix_absent[OF assms False]
    using False by simp
qed

text \<open>
  C6. For every tag whose length fits \<^verbatim>\<open>size_t\<close>, the set-up cuts \<^verbatim>\<open>SCF_TYPE\<close> at
  its first \<^verbatim>\<open>+\<close>: the J selector is the text before it and the K selector the text
  after it (the whole tag when there is no \<^verbatim>\<open>+\<close>), and a K selector that is the
  same string as the J selector is replaced by \<^verbatim>\<open>"NONE"\<close>.
\<close>

theorem derive_jk_types_split:
  assumes "length tag < 2 ^ 64"
  shows "derive_jk_types tag =
           Inr (takeWhile (\<lambda>c. c \<noteq> CHR ''+'') tag,
                if (if CHR ''+'' \<in> set tag then tl (dropWhile (\<lambda>c. c \<noteq> CHR ''+'') tag) else tag)
                     = takeWhile (\<lambda>c. c \<noteq> CHR ''+'') tag
                then ''NONE''
                else (if CHR ''+'' \<in> set tag then tl (dropWhile (\<lambda>c. c \<noteq> CHR ''+'') tag) else tag))"
  by (rule derive_jk_types_eq[OF assms])

theorem derive_jk_types_split_witness:
  "derive_jk_types ''DFDIRJ+LINK'' = Inr (''DFDIRJ'', ''LINK'') \<and>
   derive_jk_types ''COSX+COSX'' = Inr (''COSX'', ''NONE'') \<and>
   derive_jk_types ''A+B+C'' = Inr (''A'', ''B+C'')"
  using derive_jk_types_split[of "''DFDIRJ+LINK''"] derive_jk_types_split[of "''COSX+COSX''"]
    derive_jk_types_split[of "''A+B+C''"]
  by simp

text \<open>
  C10. For a tag without \<^verbatim>\<open>+\<close>, \<^verbatim>\<open>find\<close> returns \<^verbatim>\<open>npos\<close>, \<^verbatim>\<open>npos + 1\<close> wraps to 0,
  both substrings are the whole tag, and so the J selector is the whole tag and the K
  selector is \<^verbatim>\<open>"NONE"\<close>.
\<close>

theorem derive_jk_types_no_plus:
  assumes "length tag < 2 ^ 64" and "CHR ''+'' \<notin> set tag"
  shows "str_find tag CHR ''+'' = npos
       \<and> str_find tag CHR ''+'' + 1 = 0
       \<and> substr tag 0 (str_find tag CHR ''+'') = Inr tag
       \<and> substr tag (str_find tag CHR ''+'' + 1) (str_length tag) = Inr tag
       \<and> derive_jk_types tag = Inr (tag, ''NONE'')"
proof -
  have f: "str_find tag CHR ''+'' = npos"
    by (rule str_find_absent[OF assms(2)])
  have p: "substr tag 0 (str_find tag CHR ''+'') = Inr tag"
    by (rule substr_prefix_absent[OF assms])
  have q: "substr tag (str_find tag CHR ''+'' + 1) (str_length tag) = Inr tag"
    by (rule substr_suffix_absent[OF assms])
  have "derive_jk_types tag = Inr (tag, ''NONE'')"
    unfolding derive_jk_types_def p q by simp
  with f p q show ?thesis
    by (simp add: npos_succ)
qed

theorem derive_jk_types_no_plus_witness:
  "length ''DFDIRJ'' < 2 ^ 64 \<and> CHR ''+'' \<notin> set ''DFDIRJ'' \<and>
   derive_jk_types ''DFDIRJ'' = Inr (''DFDIRJ'', ''NONE'')"
  using derive_jk_types_no_plus[of "''DFDIRJ''"] by simp

text \<open>
  C7. \<^verbatim>\<open>common_init\<close> throws exactly when \<^verbatim>\<open>INCFOCK_FULL_FOCK_EVERY\<close> is at most 0,
  or the J selector cut out of \<^verbatim>\<open>SCF_TYPE\<close> is not \<^verbatim>\<open>"DFDIRJ"\<close>, or the K selector
  is none of \<^verbatim>\<open>"LINK"\<close>, \<^verbatim>\<open>"COSX"\<close> and \<^verbatim>\<open>"NONE"\<close>; the three cases raise, in this
  order of precedence, the three messages of the source.
\<close>

theorem common_init_throws_iff:
  assumes "length (SCF_TYPE opts) < 2 ^ 64"
  shows "\<exists>j k. derive_jk_types (SCF_TYPE opts) = Inr (j, k) \<and>
     (isl (common_init opts s0) \<longleftrightarrow>
        INCFOCK_FULL_FOCK_EVERY opts \<le> 0 \<or> j \<noteq> ''DFDIRJ'' \<or>
        (k \<noteq> ''LINK'' \<and> k \<noteq> ''COSX'' \<and> k \<noteq> ''NONE'')) \<and>
     (INCFOCK_FULL_FOCK_EVERY opts \<le> 0 \<longrightarrow>
        common_init opts s0 =
          Inl (PsiException ''Invalid input for option INCFOCK_FULL_FOCK_EVERY (<= 0)'')) \<and>
     (0 < INCFOCK_FULL_FOCK_EVERY opts \<and> j \<noteq> ''DFDIRJ'' \<longrightarrow>
        common_init opts s0 = Inl (PsiException ''Invalid Composite J algorithm selected!'')) \<and>
     (0 < INCFOCK_FULL_FOCK_EVERY opts \<and> j = ''DFDIRJ'' \<and>
      k \<noteq> ''LINK'' \<and> k \<noteq> ''COSX'' \<and> k \<noteq> ''NONE'' \<longrightarrow>
        common_init opts s0 = Inl (PsiException ''Invalid Composite K algorithm selected!''))"
proof -
  obtain j k where jk: "derive_jk_types (SCF_TYPE opts) = Inr (j, k)"
    using derive_jk_types_eq[OF assms] by blast
  show ?thesis
    apply (rule exI[of _ j], rule exI[of _ k])
    apply (simp add: jk common_init_def Let_def)
    done
qed

theorem common_init_throws_iff_witness:
  "isl (common_init (sample_options\<lparr>SCF_TYPE := ''DFDIRJ+DIRECT''\<rparr>) sample_state) \<and>
   isl (common_init (sample_options\<lparr>SCF_TYPE := ''LINK+COSX''\<rparr>) sample_state) \<and>
   isl (common_init (sample_options\<lparr>INCFOCK_FULL_FOCK_EVERY := 0\<rparr>) sample_state) \<and>
   \<not> isl (common_init sample_options sample_state)"
  using common_init_throws_iff[of "sample_options\<lparr>SCF_TYPE := ''DFDIRJ+DIRECT''\<rparr>" sample_state]
  by (simp add: sample_defs setup_defs)

text \<open>
  C8. \<^verbatim>\<open>set_do_K\<close> throws exactly when K is requested while the K selector is
  \<^verbatim>\<open>"NONE"\<close>; \<^verbatim>\<open>compute_JK\<close> throws when wK is requested; \<^verbatim>\<open>build_linK\<close> throws
  exactly when the exchange build is not declared symmetric.
\<close>

theorem capability_mismatch_throws:
  "(isl (set_do_K b s) \<longleftrightarrow> b \<and> k_type s = ''NONE'') \<and>
   (do_wK s \<longrightarrow> compute_JK C opts Dnorm s =
        Inl (PsiException ''CompositeJK algorithms do not support wK integrals yet!'')) \<and>
   (isl (build_linK C lr_sym D K) \<longleftrightarrow> \<not> lr_sym) \<and>
   (\<not> lr_sym \<longrightarrow> build_linK C lr_sym D K = Inl (PsiException
        ''Non-symmetric K matrix builds are currently not supported in the LinK algorithm.''))"
  by (simp add: set_do_K_def compute_JK_def build_linK_def)

theorem capability_mismatch_throws_witness:
  "isl (set_do_K True (sample_state\<lparr>k_type := ''NONE''\<rparr>)) \<and>
   \<not> isl (set_do_K True (sample_state\<lparr>k_type := ''LINK''\<rparr>)) \<and>
   compute_JK sample_contractions sample_options 1 (sample_state\<lparr>do_wK := True\<rparr>) =
     Inl (PsiException ''CompositeJK algorithms do not support wK integrals yet!'') \<and>
   isl (build_linK sample_contractions False [] [])"
  using capability_mismatch_throws[of True "sample_state\<lparr>k_type := ''NONE''\<rparr>"
      sample_contractions sample_options 1 False "[]" "[]"]
    capability_mismatch_throws[of True "sample_state\<lparr>k_type := ''LINK''\<rparr>"
      sample_contractions sample_options 1 False "[]" "[]"]
    capability_mismatch_throws[of True "sample_state\<lparr>do_wK := True\<rparr>"
      sample_contractions sample_options 1 False "[]" "[]"]
  by (simp add: sample_defs)

section \<open>Properties of the controller\<close>

lemma for_each_index_length [simp]: "length (for_each_index n f xs) = length xs"
proof -
  have "length (fold (\<lambda>i ys. ys[i := f i (ys ! i)]) is xs) = length xs" for "is"
    by (induction "is" arbitrary: xs) auto
  then show ?thesis by (simp add: for_each_index_def)
qed

lemma for_each_index_nth:
  "i < length xs \<Longrightarrow> for_each_index n f xs ! i = (if i < n then f i (xs ! i) else xs ! i)"
proof (induction n)
  case 0
  then show ?case by (simp add: for_each_index_def)
next
  case (Suc n)
  have step: "for_each_index (Suc n) f xs = (for_each_index n f xs)[n := f n (for_each_index n f xs ! n)]"
    by (simp add: for_each_index_def)
  show ?case
  proof (cases "n < length xs")
    case True
    with Suc show ?thesis
      by (auto simp: step nth_list_update less_Suc_eq)
  next
    case False
    with Suc show ?thesis
      by (auto simp: step)
  qed
qed

lemma for_each_index_all:
  "n = length xs \<Longrightarrow> for_each_index n f xs = map (\<lambda>i. f i (xs ! i)) [0..<n]"
  by (rule nth_equalityI) (simp_all add: for_each_index_nth)

lemma push_back_all: "fold (\<lambda>Di prev. prev @ [clone Di]) xs acc = acc @ xs"
  by (induction xs arbitrary: acc) (simp_all add: clone_def)

lemma incfock_postiter_D_prev: "D_prev (incfock_postiter s) = D_ao s"
  by (simp add: incfock_postiter_def push_back_all)

lemma pre_D_prev:
  "compute_JK_incfock_pre opts Dnorm s = Inr s1 \<Longrightarrow>
   D_prev s1 = D_prev s \<and> D_ao s1 = D_ao s \<and> incfock s1 = incfock s"
  by (auto simp: compute_JK_incfock_pre_def incfock_setup_def zero_def Let_def split: if_splits)

lemma map2_subtract_nth:
  "length A = length B \<Longrightarrow>
   map (\<lambda>i. matrix_subtract (A ! i) (B ! i)) [0..<length A] = map2 matrix_subtract A B"
  by (rule nth_equalityI) simp_all

text \<open>The invariant holds at the start and every completed iteration keeps it.\<close>

lemma incfock_inv_preserved:
  assumes "incfock s" and "incfock_inv s" and "compute_JK C opts Dnorm s = Inr s'"
  shows "incfock_inv s'"
proof -
  from assms(3) obtain s1 where s1: "compute_JK_incfock_pre opts Dnorm s = Inr s1"
    by (auto simp: compute_JK_def split: if_splits sum.splits)
  have a: "length (D_ref s1) = length (D_ao s)"
    using s1 assms(1,2)
    by (auto simp: compute_JK_incfock_pre_def incfock_setup_def zero_def Let_def incfock_inv_def
        split: if_splits)
  have "length (D_ref s') = length (D_ref s1) \<and> D_prev s' = D_ao s"
    using assms(1,3) s1 pre_D_prev[OF s1]
    by (auto simp: compute_JK_def Let_def incfock_postiter_def push_back_all build_linK_def
        split: if_splits sum.splits)
  with a show ?thesis by (simp add: incfock_inv_def)
qed

text \<open>
  C1, as amended. With incremental Fock enabled and a positive reset cadence (an
  \<^verbatim>\<open>int\<close>, so below \<open>2\<^sup>3\<^sup>1\<close>), the preprocessing of \<^verbatim>\<open>compute_JK\<close> takes the
  incremental branch exactly when the iteration is not the first, the cache has the
  channel count of the current density list, \<open>Dnorm\<close> is at or above
  \<^verbatim>\<open>INCFOCK_CONVERGENCE\<close>, and the running counter \<^verbatim>\<open>incfock_count_\<close> satisfies
  \<^verbatim>\<open>incfock_count_ % reset != reset - 1\<close>. That counter is advanced by one, wrapping
  around at 32 bits, on every iteration that is not the first and has \<open>Dnorm\<close> at or
  above the floor, and by nothing else; no full build sets it back. A full iteration
  has the current density as reference density and zeroed J and K accumulators; an
  incremental one has current minus previous and leaves the accumulators alone.
\<close>

theorem incfock_iteration_kind:
  assumes "incfock s" and "0 < INCFOCK_FULL_FOCK_EVERY opts"
    and "INCFOCK_FULL_FOCK_EVERY opts < 2147483648" and "incfock_inv s"
  shows "\<exists>s1. compute_JK_incfock_pre opts Dnorm s = Inr s1 \<and>
     (kind_of s1 = Incremental \<longleftrightarrow>
        \<not> initial_iteration s \<and> length (D_prev s) = length (D_ao s) \<and>
        Dnorm \<ge> INCFOCK_CONVERGENCE opts \<and>
        sint (incfock_count s) smod INCFOCK_FULL_FOCK_EVERY opts
          \<noteq> INCFOCK_FULL_FOCK_EVERY opts - 1) \<and>
     (kind_of s1 = Full \<longrightarrow>
        D_ref s1 = D_ao s \<and> J_ao s1 = map zero_matrix (J_ao s) \<and>
        K_ao s1 = map zero_matrix (K_ao s)) \<and>
     (kind_of s1 = Incremental \<longrightarrow>
        D_ref s1 = map2 matrix_subtract (D_ao s) (D_prev s) \<and>
        J_ao s1 = J_ao s \<and> K_ao s1 = K_ao s) \<and>
     incfock_count s1 =
       (if \<not> initial_iteration s \<and> Dnorm \<ge> INCFOCK_CONVERGENCE opts
        then incfock_count s + 1 else incfock_count s)"
proof -
  let ?cond = "\<not> initial_iteration s \<and> length (D_prev s) = length (D_ao s) \<and>
        Dnorm \<ge> INCFOCK_CONVERGENCE opts \<and>
        sint (incfock_count s) smod INCFOCK_FULL_FOCK_EVERY opts
          \<noteq> INCFOCK_FULL_FOCK_EVERY opts - 1"
  have wrap: "signed_take_bit 31 (INCFOCK_FULL_FOCK_EVERY opts - 1)
                = INCFOCK_FULL_FOCK_EVERY opts - 1"
    using assms(2,3) by (simp add: signed_take_bit_int_eq_self)
  have nz: "INCFOCK_FULL_FOCK_EVERY opts \<noteq> 0" "INCFOCK_FULL_FOCK_EVERY opts \<noteq> - 1"
    using assms(2) by simp_all
  show ?thesis
  proof (cases ?cond)
    case True
    then have len: "length (D_ref s) = length (D_ao s)"
      using assms(4) by (simp add: incfock_inv_def)
    have "for_each_index (length (D_ao s))
            (\<lambda>jki old. matrix_subtract (clone (D_ao s ! jki)) (D_prev s ! jki)) (D_ref s)
          = map2 matrix_subtract (D_ao s) (D_prev s)"
      using True len
      by (simp add: for_each_index_all clone_def map2_subtract_nth)
    then show ?thesis
      using True assms(1) nz
      by (simp add: compute_JK_incfock_pre_def incfock_setup_def kind_of_def Let_def wrap)
  next
    case False
    then show ?thesis
      using assms(1) nz
      by (auto simp: compute_JK_incfock_pre_def incfock_setup_def kind_of_def zero_def Let_def
          wrap)
  qed
qed

theorem incfock_iteration_kind_witness:
  "incfock (sample_after1\<lparr>D_ao := [[[2, 0], [0, 1]]]\<rparr>) \<and>
   0 < INCFOCK_FULL_FOCK_EVERY sample_options \<and>
   INCFOCK_FULL_FOCK_EVERY sample_options < 2147483648 \<and>
   incfock_inv (sample_after1\<lparr>D_ao := [[[2, 0], [0, 1]]]\<rparr>) \<and>
   (\<exists>s1. compute_JK_incfock_pre sample_options 1 (sample_after1\<lparr>D_ao := [[[2, 0], [0, 1]]]\<rparr>) = Inr s1 \<and>
      kind_of s1 = Incremental \<and> D_ref s1 = [[[1, 0], [0, 0]]] \<and> J_ao s1 = [[[1, 0], [0, 1]]] \<and>
      incfock_count s1 = 1) \<and>
   (\<exists>s1. compute_JK_incfock_pre sample_options 1
            (sample_after1\<lparr>D_ao := [[[2, 0], [0, 1]]], incfock_count := 2147483647\<rparr>) = Inr s1 \<and>
      kind_of s1 = Full \<and> sint (incfock_count s1) = - 2147483648)"
  using incfock_iteration_kind[of "sample_after1\<lparr>D_ao := [[[2, 0], [0, 1]]]\<rparr>" sample_options 1]
    incfock_iteration_kind[of
      "sample_after1\<lparr>D_ao := [[[2, 0], [0, 1]]], incfock_count := 2147483647\<rparr>" sample_options 1]
  by (simp add: sample_defs iter_defs incfock_inv_def matrix_defs)

text \<open>
  C1, as stated, fails. The cadence is 2 and the floor \<open>10\<^sup>-\<^sup>5\<close>. A run of three
  iterations is full (the first), incremental, and full again because the density
  change, \<open>8 \<times> 10\<^sup>-\<^sup>6\<close>, fell below the floor. The fourth iteration is not the first,
  finds a cache of the right channel count and a density change of \<open>2 \<times> 10\<^sup>-\<^sup>5\<close>, above
  the floor, and is the first iteration since the last full build, so the count since
  that build has not reached the cadence: the claimed rule makes it incremental. The
  code builds it in full: the reference density is the current density, not the
  difference, and the accumulators are zeroed.
\<close>

theorem incfock_since_full_counterexample:
  "common_init sample_options sample_state = Inr sample_ready \<and>
   run_iterations sample_contractions sample_options
     [([[[1, 0], [0, 1]]], 1), ([[[2, 0], [0, 1]]], 3 / 100000),
      ([[[2, 1], [1, 1]]], 8 / 1000000)] ([], sample_ready)
     = Inr ([Full, Incremental, Full], sample_after3) \<and>
   spec_iterations_since_full [Full, Incremental, Full] = 1 \<and>
   spec_incremental sample_options (2 / 100000) [Full, Incremental, Full]
     (sample_after3\<lparr>D_ao := [[[3, 1], [1, 1]]]\<rparr>) \<and>
   compute_JK_incfock_pre sample_options (2 / 100000)
     (sample_after3\<lparr>D_ao := [[[3, 1], [1, 1]]]\<rparr>) = Inr sample_pre4 \<and>
   kind_of sample_pre4 = Full \<and>
   D_ref sample_pre4 = [[[3, 1], [1, 1]]] \<and>
   D_ref sample_pre4 \<noteq> map2 matrix_subtract [[[3, 1], [1, 1]]] (D_prev sample_after3) \<and>
   J_ao sample_pre4 = [[[0, 0], [0, 0]]]"
  by (simp add: sample_defs setup_defs iter_defs matrix_defs spec_incremental_def
      spec_iterations_since_full_def)

text \<open>
  C9. With incremental Fock enabled, every \<^verbatim>\<open>compute_JK\<close> that returns leaves in the
  cache a clone of each current density matrix, whatever the kind of the iteration; the
  preprocessing does not change the cache, and the builders write J and K only.
\<close>

theorem D_prev_overwritten_after_iteration:
  assumes "incfock s" and "compute_JK C opts Dnorm s = Inr s'"
  shows "D_prev s' = map clone (D_ao s) \<and> D_ao s' = D_ao s \<and>
         (\<forall>s1. compute_JK_incfock_pre opts Dnorm s = Inr s1 \<longrightarrow> D_prev s1 = D_prev s)"
proof -
  from assms(2) obtain s1 where s1: "compute_JK_incfock_pre opts Dnorm s = Inr s1"
    by (auto simp: compute_JK_def split: if_splits sum.splits)
  note p = pre_D_prev[OF s1]
  have "D_prev s' = D_ao s \<and> D_ao s' = D_ao s"
    using assms s1 p
    by (auto simp: compute_JK_def Let_def incfock_postiter_def push_back_all build_linK_def
        split: if_splits sum.splits)
  moreover have "map clone (D_ao s) = D_ao s"
    by (simp add: clone_def map_idI)
  ultimately show ?thesis using pre_D_prev by auto
qed

theorem D_prev_overwritten_after_iteration_witness:
  "incfock (sample_ready\<lparr>D_ao := [[[1, 0], [0, 1]]]\<rparr>) \<and>
   compute_JK sample_contractions sample_options 1 (sample_ready\<lparr>D_ao := [[[1, 0], [0, 1]]]\<rparr>)
     = Inr sample_after1 \<and>
   D_prev sample_after1 = [[[1, 0], [0, 1]]] \<and>
   incfock (sample_after1\<lparr>D_ao := [[[2, 0], [0, 1]]]\<rparr>) \<and>
   compute_JK sample_contractions sample_options (3 / 100000)
     (sample_after1\<lparr>D_ao := [[[2, 0], [0, 1]]]\<rparr>) = Inr sample_after2 \<and>
   D_ref sample_after2 = [[[1, 0], [0, 0]]] \<and>
   D_prev sample_after2 = [[[2, 0], [0, 1]]]"
  using D_prev_overwritten_after_iteration[of "sample_ready\<lparr>D_ao := [[[1, 0], [0, 1]]]\<rparr>"
      sample_contractions sample_options 1 sample_after1]
    D_prev_overwritten_after_iteration[of "sample_after1\<lparr>D_ao := [[[2, 0], [0, 1]]]\<rparr>"
      sample_contractions sample_options "3 / 100000" sample_after2]
  by (simp add: sample_defs iter_defs matrix_defs)

section \<open>Properties of the builders\<close>

lemma hermitivitize_length [simp]: "length (hermitivitize M) = length M"
  by (simp add: hermitivitize_def)

lemma hermitivitize_nth:
  "i < length M \<Longrightarrow> j < length M \<Longrightarrow>
   hermitivitize M ! i ! j =
     (if i = j then M ! i ! j
      else 0.5 * (M ! min i j ! max i j + M ! max i j ! min i j))"
  by (simp add: hermitivitize_def)

lemma hermitivitize_symmetric: "symmetric_matrix (hermitivitize M)"
proof -
  have rows: "list_all (\<lambda>row. length row = length (hermitivitize M)) (hermitivitize M)"
    by (simp add: hermitivitize_def list_all_iff)
  have "hermitivitize M ! i ! j = hermitivitize M ! j ! i"
    if "i < length M" "j < length M" for i j
    using that by (simp add: hermitivitize_nth min.commute max.commute)
  with rows show ?thesis
    by (simp add: symmetric_matrix_def)
qed

text \<open>
  C5, as amended. Every J matrix that \<^verbatim>\<open>build_DirectDFJ\<close> writes and every K matrix
  that \<^verbatim>\<open>build_linK\<close> returns has been passed through \<^verbatim>\<open>hermitivitize\<close> after the
  last accumulation and is symmetric, whatever the input. \<^verbatim>\<open>build_COSK\<close> does the same
  when the exchange build is declared symmetric, and only then: otherwise its output is
  the plain sum of the per-thread contributions onto K.
\<close>

theorem builders_symmetrize:
  "(\<forall>jki. jki < length D \<and> jki < length J \<longrightarrow>
      symmetric_matrix (build_DirectDFJ C D J ! jki)) \<and>
   (\<forall>K'. build_linK C lr_sym D K = Inr K' \<longrightarrow> list_all symmetric_matrix K') \<and>
   (\<forall>jki. jki < length D \<and> jki < length K \<longrightarrow>
      (lr_sym \<longrightarrow> symmetric_matrix (build_COSK C lr_sym D K ! jki)) \<and>
      (\<not> lr_sym \<longrightarrow> build_COSK C lr_sym D K ! jki =
          fold (\<lambda>thread M. matrix_add M (COSK_KT C D ! jki ! thread)) [0..<nthreads C] (K ! jki)))"
  by (auto simp: build_DirectDFJ_def build_linK_def build_COSK_def Let_def for_each_index_nth
      hermitivitize_symmetric list_all_iff split: if_splits)

theorem builders_symmetrize_witness:
  "symmetric_matrix (build_DirectDFJ sample_contractions [[[1, 2], [2, 4]]] [[[0, 3], [0, 0]]] ! 0) \<and>
   build_DirectDFJ sample_contractions [[[1, 2], [2, 4]]] [[[0, 3], [0, 0]]] = [[[1, 7/2], [7/2, 4]]] \<and>
   build_linK sample_contractions True [[[1, 2], [2, 4]]] [[[0, 3], [0, 0]]] = Inr [[[1, 7/2], [7/2, 4]]] \<and>
   symmetric_matrix (build_COSK sample_contractions True [[[1, 2], [2, 4]]] [[[0, 3], [0, 0]]] ! 0) \<and>
   build_COSK sample_contractions False [[[1, 2], [2, 4]]] [[[0, 3], [0, 0]]] = [[[1, 5], [2, 4]]]"
  using builders_symmetrize[of "[[[1, 2], [2, 4]]]" "[[[0, 3], [0, 0]]]" sample_contractions True "[[[0, 3], [0, 0]]]"]
   builders_symmetrize[of "[[[1, 2], [2, 4]]]" "[[[0, 3], [0, 0]]]" sample_contractions False "[[[0, 3], [0, 0]]]"]
  by (simp add: sample_defs iter_defs matrix_defs)

lemmas cosk_defs = sample_block_def sample_cosk_def cosk_grid_loop_def cosk_scatter_def
  cosk_block_def esp_contract_def shell_offsets_def shell_extent_map_def sign_def absmax_def
  doublet_def for_each_index_def Let_def

text \<open>
  C5, as stated, fails. The density is the unit matrix, which is symmetric, and the
  exchange build is not declared symmetric. The grid loop of \<^verbatim>\<open>build_COSK\<close> leaves a
  contribution whose entry \<open>(0, 1)\<close> is 1 and whose entry \<open>(1, 0)\<close> is 5/8; the final
  reduction adds it onto K and, the build not being declared symmetric, returns it as
  it is: the output K is not symmetric.
\<close>

theorem COSK_unsymmetrized_counterexample:
  "symmetric_matrix [[1, 0], [0, 1]] \<and>
   cosk_grid_loop sample_cosk [[[1, 0], [0, 1]]] = [[[[5 / 4, 1], [5 / 8, 1 / 2]]]] \<and>
   build_COSK (sample_contractions\<lparr>COSK_KT := cosk_grid_loop sample_cosk\<rparr>) False
     [[[1, 0], [0, 1]]] [[[0, 0], [0, 0]]] = [[[5 / 4, 1], [5 / 8, 1 / 2]]] \<and>
   \<not> symmetric_matrix [[5 / 4, 1], [5 / 8, 1 / 2]]"
proof -
  have kt: "cosk_grid_loop sample_cosk [[[1, 0], [0, 1]]] = [[[[5 / 4, 1], [5 / 8, 1 / 2]]]]"
    by (simp add: cosk_defs eval_nat_numeral)
  have "build_COSK (sample_contractions\<lparr>COSK_KT := cosk_grid_loop sample_cosk\<rparr>) False
     [[[1, 0], [0, 1]]] [[[0, 0], [0, 0]]] = [[[5 / 4, 1], [5 / 8, 1 / 2]]]"
    by (simp add: build_COSK_def kt sample_contractions_def for_each_index_def matrix_add_def)
  with kt show ?thesis
    by (simp add: symmetric_matrix_def eval_nat_numeral All_less_Suc)
qed

lemma forward_fold_filter:
  "fold (forward_triplet E D t2 Ds Jd) ts acc =
     (fold (contract_triplet E D) (filter (\<lambda>MNP. \<not> forward_screened E t2 Ds Jd MNP) ts) (fst acc),
      snd acc + length (filter (\<lambda>MNP. \<not> forward_screened E t2 Ds Jd MNP) ts))"
proof (induction ts arbitrary: acc)
  case Nil
  then show ?case by simp
next
  case (Cons t ts)
  have step: "forward_triplet E D t2 Ds Jd t acc =
      (if forward_screened E t2 Ds Jd t then acc
       else (contract_triplet E D t (fst acc), snd acc + 1))"
    by (simp add: forward_triplet_def)
  show ?case
    by (simp add: Cons.IH step)
qed

lemmas df_defs = sample_df_def forward_contraction_def forward_triplet_def forward_screened_def
  spec_forward_screened_def contract_triplet_def contract_block_def Dshell_max_def
  J_metric_shell_diag_def for_each_index_def Let_def

text \<open>
  C2, as amended. In the forward contraction a shell triplet \<open>(P, (M, N))\<close> is skipped
  exactly when the square of the density bound of \<open>(M, N)\<close>, times the metric-diagonal
  bound of \<open>P\<close>, times the Schwarz bound of \<open>(M, N)\<close>, is below the squared integral
  tolerance. A skipped triplet leaves the buffers and the counter as they are; any other
  triplet has its block evaluated, counted and contracted with every density matrix; the
  whole loop is the contraction of exactly the triplets that are not skipped.
\<close>

theorem forward_contraction_screening:
  "(forward_screened E t2 Ds Jd MNP \<longleftrightarrow>
      Ds ! fst (shell_pairs E ! (MNP mod length (shell_pairs E)))
         ! snd (shell_pairs E ! (MNP mod length (shell_pairs E)))
      * Ds ! fst (shell_pairs E ! (MNP mod length (shell_pairs E)))
           ! snd (shell_pairs E ! (MNP mod length (shell_pairs E)))
      * Jd ! (MNP div length (shell_pairs E))
      * shell_pair_value E (fst (shell_pairs E ! (MNP mod length (shell_pairs E))))
                           (snd (shell_pairs E ! (MNP mod length (shell_pairs E))))
      < t2) \<and>
   (forward_screened E t2 Ds Jd MNP \<longrightarrow> forward_triplet E D t2 Ds Jd MNP acc = acc) \<and>
   (\<not> forward_screened E t2 Ds Jd MNP \<longrightarrow>
      forward_triplet E D t2 Ds Jd MNP acc = (contract_triplet E D MNP (fst acc), snd acc + 1)) \<and>
   forward_contraction E opts D =
     (fold (contract_triplet E D)
        (filter (\<lambda>MNP. \<not> forward_screened E (INTS_TOLERANCE opts * INTS_TOLERANCE opts)
                          (Dshell_max E D) (J_metric_shell_diag E) MNP)
           [0..<aux_nshell E * length (shell_pairs E)])
        (replicate (length D) (replicate (df_nthreads E) (replicate (aux_nbf E) 0))),
      length (filter (\<lambda>MNP. \<not> forward_screened E (INTS_TOLERANCE opts * INTS_TOLERANCE opts)
                          (Dshell_max E D) (J_metric_shell_diag E) MNP)
           [0..<aux_nshell E * length (shell_pairs E)]))"
  by (simp add: forward_screened_def forward_triplet_def forward_contraction_def Let_def
      forward_fold_filter)

theorem forward_contraction_screening_witness:
  "forward_contraction sample_df sample_options [[[1]]] = ([[[1]]], 1) \<and>
   forward_contraction sample_df sample_options [[[1 / 100000]]] = ([[[0]]], 0)"
  using forward_contraction_screening[of sample_df "1 / 1000000000000" "[[1]]" "[1]" 0 "[[[1]]]"
      "([[[0]]], 0)" sample_options]
  by (simp add: df_defs sample_options_def)

text \<open>
  C2, as stated, fails. With a density bound of \<open>10\<^sup>-\<^sup>5\<close>, a metric-diagonal bound of
  1, a Schwarz bound of \<open>10\<^sup>-\<^sup>5\<close> and a tolerance of \<open>10\<^sup>-\<^sup>6\<close>, the product of the three
  bounds is \<open>10\<^sup>-\<^sup>1\<^sup>0\<close>, not below the squared tolerance \<open>10\<^sup>-\<^sup>1\<^sup>2\<close>, yet the code skips
  the triplet: nothing is evaluated and G stays zero.
\<close>

theorem forward_screening_product_counterexample:
  "Dshell_max sample_df [[[1 / 100000]]] = [[1 / 100000]] \<and>
   J_metric_shell_diag sample_df = [1] \<and>
   INTS_TOLERANCE sample_options * INTS_TOLERANCE sample_options = 1 / 1000000000000 \<and>
   \<not> spec_forward_screened sample_df (1 / 1000000000000) [[1 / 100000]] [1] 0 \<and>
   forward_screened sample_df (1 / 1000000000000) [[1 / 100000]] [1] 0 \<and>
   forward_contraction sample_df sample_options [[[1 / 100000]]] = ([[[0]]], 0)"
  by (simp add: df_defs sample_options_def)

lemma read_prefix_Nil [simp]: "read_prefix passes [] = []"
  by (simp add: read_prefix_def)

lemma read_prefix_Cons:
  "read_prefix passes (x # xs) = (if passes x then x # read_prefix passes xs else [x])"
  by (simp add: read_prefix_def)

lemma scan_bras_examined:
  "examined (fst (scan_bras E c P Q R bras (L, sig))) =
     examined L @ map (Pair R)
       (read_prefix (\<lambda>S. screen_val E (if c then P else Q) P Q R S \<ge> linK_cutoff E) bras)
   \<and> snd (scan_bras E c P Q R bras (L, sig)) =
     (sig \<or> (bras \<noteq> [] \<and> screen_val E (if c then P else Q) P Q R (hd bras) \<ge> linK_cutoff E))"
proof (induction bras arbitrary: L sig)
  case Nil
  then show ?case by simp
next
  case (Cons S rest)
  show ?case
    by (simp add: read_prefix_Cons Cons.IH Let_def)
qed

lemma scan_kets_examined:
  "examined (scan_kets E c P Q kets L) =
     examined L @ concat (map (\<lambda>R. map (Pair R)
         (read_prefix (\<lambda>S. screen_val E (if c then P else Q) P Q R S \<ge> linK_cutoff E)
            (significant_bras E ! R)))
       (read_prefix (\<lambda>R. significant_bras E ! R \<noteq> [] \<and>
            screen_val E (if c then P else Q) P Q R (hd (significant_bras E ! R)) \<ge> linK_cutoff E)
          kets))"
proof (induction kets arbitrary: L)
  case Nil
  then show ?case by simp
next
  case (Cons R rest)
  obtain L1 sig where r: "scan_bras E c P Q R (significant_bras E ! R) (L, False) = (L1, sig)"
    by (cases "scan_bras E c P Q R (significant_bras E ! R) (L, False)")
  from scan_bras_examined[of E c P Q R "significant_bras E ! R" L False] r
  have ex: "examined L1 = examined L @ map (Pair R)
       (read_prefix (\<lambda>S. screen_val E (if c then P else Q) P Q R S \<ge> linK_cutoff E)
          (significant_bras E ! R))"
    and sg: "sig = (significant_bras E ! R \<noteq> [] \<and>
       screen_val E (if c then P else Q) P Q R (hd (significant_bras E ! R)) \<ge> linK_cutoff E)"
    by simp_all
  have step: "scan_kets E c P Q (R # rest) L = (if sig then scan_kets E c P Q rest L1 else L1)"
    by (simp add: r)
  let ?sigR = "\<lambda>R. significant_bras E ! R \<noteq> [] \<and>
            screen_val E (if c then P else Q) P Q R (hd (significant_bras E ! R)) \<ge> linK_cutoff E"
  have pre: "read_prefix ?sigR (R # rest) = (if sig then R # read_prefix ?sigR rest else [R])"
    unfolding sg by (rule read_prefix_Cons)
  show ?case
    unfolding step pre
    by (cases sig) (simp_all add: ex Cons.IH)
qed


lemmas linK_defs = sample_linK_def empty_lists_def zero_blocks_def one_function_shells_def
  form_ML_PQ_def screen_val_def read_prefix_def Let_def

text \<open>
  C3. While the candidate set of a bra pair \<open>(P, Q)\<close> is built, the bound (density bound
  times the square root of the quartet ceiling) is computed, in list order, for the
  shells S of the bra list of R up to and including the first S whose bound is below the
  cutoff, and for no later S; and the ket list of P (then of Q) is walked up to and
  including the first R for which no S passed, and no further.
\<close>

theorem linK_scan_stops_at_first_failure:
  "examined (fst (scan_bras E c P Q R bras (L, sig))) =
     examined L @ map (Pair R)
       (read_prefix (\<lambda>S. screen_val E (if c then P else Q) P Q R S \<ge> linK_cutoff E) bras) \<and>
   snd (scan_bras E c P Q R bras (L, sig)) =
     (sig \<or> (bras \<noteq> [] \<and> screen_val E (if c then P else Q) P Q R (hd bras) \<ge> linK_cutoff E)) \<and>
   examined (scan_kets E c P Q kets L) =
     examined L @ concat (map (\<lambda>R. map (Pair R)
         (read_prefix (\<lambda>S. screen_val E (if c then P else Q) P Q R S \<ge> linK_cutoff E)
            (significant_bras E ! R)))
       (read_prefix (\<lambda>R. significant_bras E ! R \<noteq> [] \<and>
            screen_val E (if c then P else Q) P Q R (hd (significant_bras E ! R)) \<ge> linK_cutoff E)
          kets)) \<and>
   examined (form_ML_PQ E P Q L) =
     examined L
     @ concat (map (\<lambda>R. map (Pair R)
         (read_prefix (\<lambda>S. screen_val E P P Q R S \<ge> linK_cutoff E) (significant_bras E ! R)))
       (read_prefix (\<lambda>R. significant_bras E ! R \<noteq> [] \<and>
            screen_val E P P Q R (hd (significant_bras E ! R)) \<ge> linK_cutoff E)
          (significant_kets E ! P)))
     @ concat (map (\<lambda>R. map (Pair R)
         (read_prefix (\<lambda>S. screen_val E Q P Q R S \<ge> linK_cutoff E) (significant_bras E ! R)))
       (read_prefix (\<lambda>R. significant_bras E ! R \<noteq> [] \<and>
            screen_val E Q P Q R (hd (significant_bras E ! R)) \<ge> linK_cutoff E)
          (significant_kets E ! Q)))"
  using scan_bras_examined[of E c P Q R bras L sig] scan_kets_examined[of E c P Q kets L]
  by (simp add: form_ML_PQ_def scan_kets_examined)

theorem linK_scan_stops_at_first_failure_witness:
  "examined (form_ML_PQ sample_linK 2 2 empty_lists) =
     [(0, 0), (0, 1), (1, 0), (0, 0), (0, 1), (1, 0)] \<and>
   ML_PQ (form_ML_PQ sample_linK 2 2 empty_lists) = {0}"
  using linK_scan_stops_at_first_failure[of sample_linK True 2 2 0 "[0, 1, 2]" empty_lists False
      "[0, 1, 2]"]
  by (simp add: linK_defs)

lemma add_to_entry_dims: "dims n Kp \<Longrightarrow> dims n (add_to_entry Kp i j v)"
  by (cases "i < length Kp") (auto simp: dims_def add_to_entry_def nth_list_update)

lemma add_to_entry_nth:
  "dims n Kp \<Longrightarrow> i < n \<Longrightarrow> j < n \<Longrightarrow> a < n \<Longrightarrow> c < n \<Longrightarrow>
   add_to_entry Kp i j v ! a ! c = (if a = i \<and> c = j then Kp ! i ! j + v else Kp ! a ! c)"
  by (auto simp: dims_def add_to_entry_def nth_list_update)

lemma stripe_fold:
  assumes "dims n Kp" "row < n" "\<forall>X \<in> set Xs. X < n" "distinct Xs"
  shows "dims n (fold (\<lambda>X Kp. add_to_entry (add_to_entry Kp row X (Ka X)) row X (Kb X)) Xs Kp) \<and>
    (\<forall>a < n. \<forall>c < n.
      fold (\<lambda>X Kp. add_to_entry (add_to_entry Kp row X (Ka X)) row X (Kb X)) Xs Kp ! a ! c
       = Kp ! a ! c + (if a = row \<and> c \<in> set Xs then Ka c + Kb c else 0))"
  using assms
proof (induction Xs arbitrary: Kp)
  case Nil
  then show ?case by simp
next
  case (Cons X Xs)
  let ?K1 = "add_to_entry (add_to_entry Kp row X (Ka X)) row X (Kb X)"
  have d1: "dims n ?K1" using Cons.prems(1) by (simp add: add_to_entry_dims)
  have X: "X < n" using Cons.prems(3) by simp
  have e1: "?K1 ! a ! c = Kp ! a ! c + (if a = row \<and> c = X then Ka c + Kb c else 0)"
    if "a < n" "c < n" for a c
  proof -
    let ?K0 = "add_to_entry Kp row X (Ka X)"
    have d0: "dims n ?K0" using Cons.prems(1) by (rule add_to_entry_dims)
    have s0: "?K0 ! a ! c = (if a = row \<and> c = X then Kp ! row ! X + Ka X else Kp ! a ! c)"
      by (rule add_to_entry_nth[OF Cons.prems(1,2) X that])
    have s0': "?K0 ! row ! X = Kp ! row ! X + Ka X"
      using add_to_entry_nth[OF Cons.prems(1,2) X Cons.prems(2) X] by simp
    have s1: "?K1 ! a ! c = (if a = row \<and> c = X then ?K0 ! row ! X + Kb X else ?K0 ! a ! c)"
      by (rule add_to_entry_nth[OF d0 Cons.prems(2) X that])
    show ?thesis
      unfolding s1 s0 s0' by simp
  qed
  from Cons.IH[OF d1 Cons.prems(2)] Cons.prems(3,4)
  have ih: "dims n (fold (\<lambda>X Kp. add_to_entry (add_to_entry Kp row X (Ka X)) row X (Kb X)) Xs ?K1) \<and>
    (\<forall>a < n. \<forall>c < n.
      fold (\<lambda>X Kp. add_to_entry (add_to_entry Kp row X (Ka X)) row X (Kb X)) Xs ?K1 ! a ! c
       = ?K1 ! a ! c + (if a = row \<and> c \<in> set Xs then Ka c + Kb c else 0))"
    by simp
  show ?case
    using ih e1 Cons.prems(4) by auto
qed


lemma unit_contract:
  "contract_quartet n (unit_quartet P Q R S) P Q R S Dp buffer zero_blocks =
     \<lparr>K1p = (\<lambda>i. 0)(R := linK_prefactor P Q R S * (Dp ! Q ! S) * buffer ! 0),
      K2p = (\<lambda>i. 0)(S := linK_prefactor P Q R S * (Dp ! Q ! R) * buffer ! 0),
      K3p = (\<lambda>i. 0)(R := linK_prefactor P Q R S * (Dp ! P ! S) * buffer ! 0),
      K4p = (\<lambda>i. 0)(S := linK_prefactor P Q R S * (Dp ! P ! R) * buffer ! 0)\<rparr>"
  by (simp add: contract_quartet_def unit_quartet_def scatter_integral_def zero_blocks_def Let_def)

lemma unit_stripeout_rows:
  "stripeout_rows (unit_basis n) X 1 [L] Ka Kb Kp =
     fold (\<lambda>Y Kp. add_to_entry (add_to_entry Kp X Y (Ka Y)) X Y (Kb Y)) L Kp"
  by (simp add: stripeout_rows_def unit_basis_def)

lemma dims_zero: "dims n (replicate n (replicate n 0))"
  by (simp add: dims_def)

lemma unit_stripeout_entry:
  assumes "P < n" "Q < n" "R < n" "S < n" "a < n" "c < n"
  shows "stripeout (unit_basis n) (unit_task P Q R S)
           (contract_quartet n (unit_quartet P Q R S) P Q R S Dp buffer zero_blocks)
           (replicate n (replicate n 0)) ! a ! c
         = (if a = P \<and> c = R then 2 * (linK_prefactor P Q R S * (Dp ! Q ! S) * buffer ! 0) else 0)
         + (if a = P \<and> c = S then 2 * (linK_prefactor P Q R S * (Dp ! Q ! R) * buffer ! 0) else 0)
         + (if a = Q \<and> c = R then 2 * (linK_prefactor P Q R S * (Dp ! P ! S) * buffer ! 0) else 0)
         + (if a = Q \<and> c = S then 2 * (linK_prefactor P Q R S * (Dp ! P ! R) * buffer ! 0) else 0)"
    and "dims n (stripeout (unit_basis n) (unit_task P Q R S)
           (contract_quartet n (unit_quartet P Q R S) P Q R S Dp buffer zero_blocks)
           (replicate n (replicate n 0)))"
proof -
  let ?L = "remdups [R, S]"
  have L: "\<forall>X \<in> set ?L. X < n" "distinct ?L" using assms by auto
  let ?B = "scale_blocks 2.0 (contract_quartet n (unit_quartet P Q R S) P Q R S Dp buffer zero_blocks)"
  let ?K1 = "fold (\<lambda>Y Kp. add_to_entry (add_to_entry Kp P Y (K1p ?B Y)) P Y (K2p ?B Y)) ?L
               (replicate n (replicate n 0))"
  let ?K2 = "fold (\<lambda>Y Kp. add_to_entry (add_to_entry Kp Q Y (K3p ?B Y)) Q Y (K4p ?B Y)) ?L ?K1"
  have eq: "stripeout (unit_basis n) (unit_task P Q R S)
           (contract_quartet n (unit_quartet P Q R S) P Q R S Dp buffer zero_blocks)
           (replicate n (replicate n 0)) = ?K2"
    by (simp only: stripeout_def unit_task_def Let_def atom_pair_task.simps unit_stripeout_rows)
  note f1 = stripe_fold[OF dims_zero assms(1) L, of "K1p ?B" "K2p ?B"]
  note f2 = stripe_fold[OF f1[THEN conjunct1] assms(2) L, of "K3p ?B" "K4p ?B"]
  show "dims n (stripeout (unit_basis n) (unit_task P Q R S)
           (contract_quartet n (unit_quartet P Q R S) P Q R S Dp buffer zero_blocks)
           (replicate n (replicate n 0)))"
    unfolding eq using f2 by simp
  have "?K2 ! a ! c = ?K1 ! a ! c + (if a = Q \<and> c \<in> set ?L then K3p ?B c + K4p ?B c else 0)"
    using f2 assms(5,6) by simp
  moreover have "?K1 ! a ! c = (if a = P \<and> c \<in> set ?L then K1p ?B c + K2p ?B c else 0)"
    using f1 assms(5,6) by simp
  ultimately show "stripeout (unit_basis n) (unit_task P Q R S)
           (contract_quartet n (unit_quartet P Q R S) P Q R S Dp buffer zero_blocks)
           (replicate n (replicate n 0)) ! a ! c
         = (if a = P \<and> c = R then 2 * (linK_prefactor P Q R S * (Dp ! Q ! S) * buffer ! 0) else 0)
         + (if a = P \<and> c = S then 2 * (linK_prefactor P Q R S * (Dp ! Q ! R) * buffer ! 0) else 0)
         + (if a = Q \<and> c = R then 2 * (linK_prefactor P Q R S * (Dp ! P ! S) * buffer ! 0) else 0)
         + (if a = Q \<and> c = S then 2 * (linK_prefactor P Q R S * (Dp ! P ! R) * buffer ! 0) else 0)"
    unfolding eq by (auto simp: unit_contract scale_blocks_def)
qed


lemma linK_one_quartet_entry:
  assumes "P < n" "Q < n" "R < n" "S < n" "a < n" "c < n"
    and sym: "\<forall>i < n. \<forall>j < n. Dp ! i ! j = Dp ! j ! i"
  shows "linK_one_quartet (unit_basis n) (unit_task P Q R S) (unit_quartet P Q R S) P Q R S
           Dp buffer (replicate n (replicate n 0)) ! a ! c
         = linK_prefactor P Q R S
           * sum_list (map (exchange_term Dp (buffer ! 0) a c) (permuted_quartets P Q R S))"
proof -
  let ?K = "stripeout (unit_basis n) (unit_task P Q R S)
           (contract_quartet n (unit_quartet P Q R S) P Q R S Dp buffer zero_blocks)
           (replicate n (replicate n 0))"
  let ?w = "linK_prefactor P Q R S"
  let ?I = "buffer ! 0"
  have len: "length ?K = n"
    using unit_stripeout_entry(2)[OF assms(1-6)] by (simp add: dims_def)
  note e = unit_stripeout_entry(1)[OF assms(1-4)]
  have s1: "Dp ! S ! Q = Dp ! Q ! S" "Dp ! R ! Q = Dp ! Q ! R"
           "Dp ! S ! P = Dp ! P ! S" "Dp ! R ! P = Dp ! P ! R"
    using sym assms(1-4) by simp_all
  have herm: "hermitivitize ?K ! a ! c = (?K ! a ! c + ?K ! c ! a) / 2"
  proof (cases "a = c")
    case True
    then show ?thesis using assms(5) len by (simp add: hermitivitize_nth)
  next
    case False
    then show ?thesis using assms(5,6) len
      by (cases "a < c") (simp_all add: hermitivitize_nth min_def max_def)
  qed
  have nb: "basis_nbf (unit_basis n) = n" by (simp add: unit_basis_def)
  have lhs: "linK_one_quartet (unit_basis n) (unit_task P Q R S) (unit_quartet P Q R S) P Q R S
           Dp buffer (replicate n (replicate n 0)) ! a ! c = (?K ! a ! c + ?K ! c ! a) / 2"
    unfolding linK_one_quartet_def nb by (rule herm)
  define aP aQ aR aS cP cQ cR cS
    where "aP \<longleftrightarrow> a = P" and "aQ \<longleftrightarrow> a = Q" and "aR \<longleftrightarrow> a = R" and "aS \<longleftrightarrow> a = S"
      and "cP \<longleftrightarrow> c = P" and "cQ \<longleftrightarrow> c = Q" and "cR \<longleftrightarrow> c = R" and "cS \<longleftrightarrow> c = S"
  note atoms = aP_def[symmetric] aQ_def[symmetric] aR_def[symmetric] aS_def[symmetric]
    cP_def[symmetric] cQ_def[symmetric] cR_def[symmetric] cS_def[symmetric]
  have rhs: "sum_list (map (exchange_term Dp ?I a c) (permuted_quartets P Q R S)) =
      (if aP \<and> cR then Dp ! Q ! S * ?I else 0) + ((if aQ \<and> cR then Dp ! P ! S * ?I else 0)
      + ((if aP \<and> cS then Dp ! Q ! R * ?I else 0) + ((if aQ \<and> cS then Dp ! P ! R * ?I else 0)
      + ((if aR \<and> cP then Dp ! S ! Q * ?I else 0) + ((if aS \<and> cP then Dp ! R ! Q * ?I else 0)
      + ((if aR \<and> cQ then Dp ! S ! P * ?I else 0) + ((if aS \<and> cQ then Dp ! R ! P * ?I else 0) + 0)))))))"
    unfolding exchange_term_def permuted_quartets_def list.map sum_list.Cons sum_list.Nil
      prod.case atoms ..
  show ?thesis
    unfolding lhs e[OF assms(5,6)] e[OF assms(6,5)] rhs atoms s1
    by (cases aP; cases aQ; cases aR; cases aS; cases cP; cases cQ; cases cR; cases cS;
        simp add: algebra_simps)
qed

lemma prefactor_counts_permutations:
  fixes f :: "nat \<times> nat \<times> nat \<times> nat \<Rightarrow> real"
  assumes "Q \<le> P" and "S \<le> R"
  shows "linK_prefactor P Q R S * sum_list (map f (permuted_quartets P Q R S))
           = sum_list (map f (remdups (permuted_quartets P Q R S)))"
  using assms
  by (cases "P = Q"; cases "R = S"; cases "P = R"; cases "P = S"; cases "Q = R"; cases "Q = S";
      simp add: linK_prefactor_def permuted_quartets_def)

text \<open>
  The pairs that enter \<^verbatim>\<open>ML_PQ\<close> are coded with the larger shell first, so the quartet
  loop decodes them (lines 1082--1083) with \<open>S \<le> R\<close>; line 1030 gives \<open>Q \<le> P\<close>.
\<close>

lemma ket_pair_code_canonical:
  fixes R S n :: nat
  assumes "R < n" and "S < n"
  shows "(if R \<ge> S then R * n + S else S * n + R) mod n
           \<le> (if R \<ge> S then R * n + S else S * n + R) div n"
proof -
  have "(x * n + y) mod n = y \<and> (x * n + y) div n = x" if "y < n" for x y :: nat
    using that by simp
  from this[of S R] this[of R S] assms show ?thesis
    by (simp del: mod_mult_self3 div_mult_self3)
qed

text \<open>
  C4. The prefactor of a quartet \<open>(P, Q, R, S)\<close> is the product of one half if
  \<open>P = Q\<close>, one half if \<open>R = S\<close>, and one half if \<open>P = R\<close> and \<open>Q = S\<close>; every
  contribution that the contraction adds to the sub-blocks PR, PS, QR and QS is the
  integral times a density element times that prefactor. Nothing is counted twice: for
  every quartet that the loop reaches (\<open>Q \<le> P\<close>, \<open>S \<le> R\<close>) the prefactor times the sum
  over the eight index permutations is the sum over the distinct ones; and in a task
  of fewer than \<open>2\<^sup>3\<^sup>1\<close> one-function shells with a symmetric density, after the scaling
  by 2, the stripe-out and the symmetrization, every entry of K is the exchange sum in
  which each distinct permutation of the integral occurs once.
\<close>

theorem linK_prefactor_product:
  "linK_prefactor P Q R S =
     (if P = Q then 1 / 2 else 1) * (if R = S then 1 / 2 else 1)
     * (if P = R \<and> Q = S then 1 / 2 else 1) \<and>
   contract_quartet nbf G P Q R S Dp buffer B =
     fold (\<lambda>(pqrs, index). scatter_integral
             ((if P = Q then 1 / 2 else 1) * (if R = S then 1 / 2 else 1)
              * (if P = R \<and> Q = S then 1 / 2 else 1)) nbf G Dp pqrs (buffer ! index))
       (zip (concat (map (\<lambda>p. concat (map (\<lambda>q. concat (map (\<lambda>r. map (\<lambda>s. (p, q, r, s))
                    [0..<shell_S_nfunc G]) [0..<shell_R_nfunc G]))
                    [0..<shell_Q_nfunc G])) [0..<shell_P_nfunc G]))
          [0..<length (concat (map (\<lambda>p. concat (map (\<lambda>q. concat (map (\<lambda>r. map (\<lambda>s. (p, q, r, s))
                    [0..<shell_S_nfunc G]) [0..<shell_R_nfunc G]))
                    [0..<shell_Q_nfunc G])) [0..<shell_P_nfunc G]))]) B \<and>
   K1p (scatter_integral pf nbf G Dp (p, q, r, s) x B)
       ((p + shell_P_offset G) * nbf + r + shell_R_start G) =
     K1p B ((p + shell_P_offset G) * nbf + r + shell_R_start G)
     + pf * (Dp ! (q + shell_Q_start G) ! (s + shell_S_start G)) * x \<and>
   K2p (scatter_integral pf nbf G Dp (p, q, r, s) x B)
       ((p + shell_P_offset G) * nbf + s + shell_S_start G) =
     K2p B ((p + shell_P_offset G) * nbf + s + shell_S_start G)
     + pf * (Dp ! (q + shell_Q_start G) ! (r + shell_R_start G)) * x \<and>
   K3p (scatter_integral pf nbf G Dp (p, q, r, s) x B)
       ((q + shell_Q_offset G) * nbf + r + shell_R_start G) =
     K3p B ((q + shell_Q_offset G) * nbf + r + shell_R_start G)
     + pf * (Dp ! (p + shell_P_start G) ! (s + shell_S_start G)) * x \<and>
   K4p (scatter_integral pf nbf G Dp (p, q, r, s) x B)
       ((q + shell_Q_offset G) * nbf + s + shell_S_start G) =
     K4p B ((q + shell_Q_offset G) * nbf + s + shell_S_start G)
     + pf * (Dp ! (p + shell_P_start G) ! (r + shell_R_start G)) * x \<and>
   (Q \<le> P \<and> S \<le> R \<longrightarrow>
      linK_prefactor P Q R S * sum_list (map f (permuted_quartets P Q R S))
        = sum_list (map f (remdups (permuted_quartets P Q R S)))) \<and>
   (Q \<le> P \<and> P < n \<and> S \<le> R \<and> R < n \<and> a < n \<and> c < n \<and> n < 2147483648 \<and>
    (\<forall>i < n. \<forall>j < n. Dp ! i ! j = Dp ! j ! i) \<longrightarrow>
      linK_one_quartet (unit_basis n) (unit_task P Q R S) (unit_quartet P Q R S) P Q R S
          Dp buffer (replicate n (replicate n 0)) ! a ! c
        = exchange_reference Dp (buffer ! 0) (permuted_quartets P Q R S) a c)"
proof -
  have once: "linK_one_quartet (unit_basis n) (unit_task P Q R S) (unit_quartet P Q R S) P Q R S
          Dp buffer (replicate n (replicate n 0)) ! a ! c
        = exchange_reference Dp (buffer ! 0) (permuted_quartets P Q R S) a c"
    if h: "Q \<le> P" "P < n" "S \<le> R" "R < n" "a < n" "c < n"
      "\<forall>i < n. \<forall>j < n. Dp ! i ! j = Dp ! j ! i"
  proof -
    have "Q < n" "S < n" using h by simp_all
    from linK_one_quartet_entry[OF h(2) this(1) h(4) this(2) h(5,6,7), of buffer]
    show ?thesis
      unfolding exchange_reference_def
      by (simp only: prefactor_counts_permutations[OF h(1,3)])
  qed
  show ?thesis
    using once prefactor_counts_permutations[of Q P S R f]
    by (simp add: linK_prefactor_def contract_quartet_def scatter_integral_def Let_def)
qed

theorem linK_prefactor_product_witness:
  "linK_prefactor 0 0 0 0 = 1 / 8 \<and> linK_prefactor 1 1 0 0 = 1 / 4 \<and>
   linK_prefactor 1 0 1 0 = 1 / 2 \<and> linK_prefactor 1 1 1 0 = 1 / 2 \<and>
   linK_prefactor 2 1 1 1 = 1 / 2 \<and> linK_prefactor 2 1 1 0 = 1 \<and>
   K1p (contract_quartet 1 one_function_shells 0 0 0 0 [[3]] [2] zero_blocks) 0 = 3 / 4 \<and>
   K4p (contract_quartet 1 one_function_shells 1 0 1 0 [[3]] [2] zero_blocks) 0 = 3 \<and>
   linK_one_quartet (unit_basis 2) (unit_task 1 1 0 0) (unit_quartet 1 1 0 0) 1 1 0 0
     [[2, 3], [3, 5]] [7] [[0, 0], [0, 0]] ! 1 ! 0 = 21 \<and>
   exchange_reference [[2, 3], [3, 5]] 7 (permuted_quartets 1 1 0 0) 1 0 = 21 \<and>
   linK_one_quartet (unit_basis 2) (unit_task 1 0 1 0) (unit_quartet 1 0 1 0) 1 0 1 0
     [[2, 3], [3, 5]] [7] [[0, 0], [0, 0]] ! 1 ! 1 = 14 \<and>
   exchange_reference [[2, 3], [3, 5]] 7 (permuted_quartets 1 0 1 0) 1 1 = 14"
proof -
  note t1 = linK_prefactor_product[of 0 0 0 0 1 one_function_shells "[[3]]" "[2]" zero_blocks
      1 0 0 0 0 1 "\<lambda>t. 1" 1 0 0]
  note t2 = linK_prefactor_product[of 1 0 1 0 1 one_function_shells "[[3]]" "[2]" zero_blocks
      1 0 0 0 0 1 "\<lambda>t. 1" 1 0 0]
  note t3 = linK_prefactor_product[of 1 1 0 0 2 "unit_quartet 1 1 0 0" "[[2, 3], [3, 5]]" "[7]" zero_blocks
      1 0 0 0 0 1 "\<lambda>t. 1" 2 1 0]
  note t4 = linK_prefactor_product[of 1 0 1 0 2 "unit_quartet 1 0 1 0" "[[2, 3], [3, 5]]" "[7]" zero_blocks
      1 0 0 0 0 1 "\<lambda>t. 1" 2 1 1]
  have sym: "\<forall>i < 2. \<forall>j < 2. [[2, 3], [3, 5::real]] ! i ! j = [[2, 3], [3, 5]] ! j ! i"
    by (simp add: numeral_2_eq_2 All_less_Suc)
  have e3: "linK_one_quartet (unit_basis 2) (unit_task 1 1 0 0) (unit_quartet 1 1 0 0) 1 1 0 0
     [[2, 3], [3, 5]] [7] [[0, 0], [0, 0]] ! 1 ! 0
     = exchange_reference [[2, 3], [3, 5]] 7 (permuted_quartets 1 1 0 0) 1 0"
    using t3 sym by (simp add: numeral_2_eq_2)
  have e4: "linK_one_quartet (unit_basis 2) (unit_task 1 0 1 0) (unit_quartet 1 0 1 0) 1 0 1 0
     [[2, 3], [3, 5]] [7] [[0, 0], [0, 0]] ! 1 ! 1
     = exchange_reference [[2, 3], [3, 5]] 7 (permuted_quartets 1 0 1 0) 1 1"
    using t4 sym by (simp add: numeral_2_eq_2)
  have r3: "exchange_reference [[2, 3], [3, 5]] 7 (permuted_quartets 1 1 0 0) 1 0 = 21"
    and r4: "exchange_reference [[2, 3], [3, 5]] 7 (permuted_quartets 1 0 1 0) 1 1 = 14"
    by (simp_all add: exchange_reference_def exchange_term_def permuted_quartets_def)
  show ?thesis
    using t1 t2 e3 e4 r3 r4
    by (simp add: linK_defs linK_prefactor_def scatter_integral_def contract_quartet_def)
qed

end
